theory Spec2Isabelle
  imports Main
begin

section \<open>The auto-save coordinator of \<open>extension/core/bg/autosave.js\<close>\<close>

text \<open>
  The module keeps two process-wide objects, \<open>pendingMessages\<close> and \<open>replacedTabIds\<close>,
  and reacts to messages of content scripts and to tab lifecycle events. The embedding
  passes the two objects as an explicit state, returns errors (rejected promises,
  \<open>TypeError\<close>) as values, and records every call of an outside collaborator, and every
  invocation of \<open>saveContent\<close>, in a trace of events. The collaborators themselves
  (\<open>config\<close>, \<open>tabsData\<close>, \<open>downloads\<close>, \<open>getPageData\<close>, the compression processor,
  \<open>infobar\<close>, \<open>URL\<close>) live outside the module: they are parameters, gathered in the
  record \<open>collab\<close>, and each may fail.

  Every handler is run to completion: what an \<open>await\<close> lets interleave is not modelled.
\<close>

subsection \<open>Data\<close>

text \<open>
  A tab id is a number, or \<open>undefined\<close> (\<open>None\<close>). Used as a property key, \<open>undefined\<close>
  is the key \<open>"undefined"\<close>, different from the key of every number, so the two objects
  are maps from \<open>key\<close>.
\<close>

type_synonym key = "int option"

datatype error = TypeError | Rejected string

record tab =
  tab_id :: key
  tab_index :: "int option"
  tab_url :: string
  tab_pinned :: bool
  tab_incognito :: "bool option"

record sender =
  sender_tab :: "tab option"
  sender_url :: string

text \<open>
  The fields of a message that \<open>saveContent\<close> copies into the options one by one
  (\<open>content\<close>, \<open>url\<close>, \<open>frames\<close>, ..., \<open>visitDate\<close>) are grouped in one record.
\<close>

record captured =
  cap_content :: string
  cap_url :: string
  cap_frames :: string
  cap_canvases :: string
  cap_fonts :: string
  cap_stylesheets :: string
  cap_images :: string
  cap_posters :: string
  cap_usedFonts :: string
  cap_shadowRoots :: string
  cap_imports :: string
  cap_referrer :: string
  cap_updatedResources :: string
  cap_visitDate :: int

text \<open>
  One record serves for every object stored in \<open>pendingMessages\<close>: a message of a
  content script, and the marker \<open>{ removed: true }\<close> that \<open>onTabRemoved\<close> writes. A flag
  that is absent is \<open>False\<close>; \<open>taskId\<close> is a number or absent.
\<close>

record message =
  msg_method :: string
  msg_autoSaveDiscard :: bool
  msg_autoSaveRemove :: bool
  msg_autoSaveUnload :: bool
  msg_tabId :: key
  msg_tabIndex :: "int option"
  msg_taskId :: "nat option"
  msg_tab :: "tab option"
  msg_removed :: bool
  msg_captured :: "captured option"

definition closedMarker :: message where
  "closedMarker =
     \<lparr>msg_method = [], msg_autoSaveDiscard = False, msg_autoSaveRemove = False,
      msg_autoSaveUnload = False, msg_tabId = None, msg_tabIndex = None,
      msg_taskId = None, msg_tab = None, msg_removed = True, msg_captured = None\<rparr>"

record options =
  opt_saveToGDrive :: bool
  opt_includeInfobar :: bool
  opt_autoSaveDiscard :: bool
  opt_autoClose :: bool
  opt_filenameConflictAction :: string
  opt_insertTextBody :: bool
  opt_createRootDirectory :: bool
  opt_selfExtractingArchive :: bool
  opt_insertCanonicalLink :: bool
  opt_insertMetaNoIndex :: bool
  opt_password :: string
  opt_captured :: "captured option"
  opt_backgroundTab :: bool
  opt_autoSave :: bool
  opt_incognito :: "bool option"
  opt_tabId :: key
  opt_tabIndex :: "int option"

record compressionOptions =
  co_insertTextBody :: bool
  co_url :: string
  co_createRootDirectory :: bool
  co_tabId :: key
  co_selfExtractingArchive :: bool
  co_insertCanonicalLink :: bool
  co_insertMetaNoIndex :: bool
  co_password :: string

record pageData =
  pd_filename :: string
  pd_content :: string
  pd_url :: "string option"

record testSkip =
  ts_skipped :: bool
  ts_filenameConflictAction :: string

type_synonym blob = string

record tabData =
  td_autoSave :: bool

record allTabsData =
  atd_autoSaveAll :: bool
  atd_autoSaveUnpinned :: bool
  atd_byTab :: "key \<rightharpoonup> tabData"

record rule =
  rule_autoSaveProfile :: string

text \<open>
  The collaborators. \<open>DISABLED_PROFILE_NAME\<close> is a constant of \<open>config.js\<close>. The calls
  whose result the module does not read (\<open>ui.onStart\<close>, \<open>ui.onEnd\<close>,
  \<open>business.onSaveEnd\<close>, \<open>tabs.remove\<close>, \<open>URL.revokeObjectURL\<close>) only leave an event:
  they are taken not to throw.
\<close>

record collab =
  getOptions :: "string \<Rightarrow> error + options option"
  getRule :: "string \<Rightarrow> error + rule option"
  tabsData_get :: "error + allTabsData"
  DISABLED_PROFILE_NAME :: string
  getPageData :: "options \<Rightarrow> error + pageData"
  testSkipSave :: "string \<Rightarrow> options \<Rightarrow> error + testSkip"
  includeScript :: "pageData \<Rightarrow> error + pageData"
  compressionProcess :: "pageData \<Rightarrow> compressionOptions \<Rightarrow> error + blob"
  uploadPage :: "nat option \<Rightarrow> string \<Rightarrow> blob \<Rightarrow> options \<Rightarrow> error + unit"
  createObjectURL :: "blob \<Rightarrow> string"
  downloadPage :: "pageData \<Rightarrow> options \<Rightarrow> error + unit"

datatype event =
    SaveContent message "tab option"
  | UiOnStart key
  | GetPageData
  | TestSkipSave string
  | IncludeScript
  | CompressionProcess
  | UploadPage "nat option" string
  | CreateObjectURL string
  | DownloadPage
  | BusinessOnSaveEnd nat
  | TabsRemove key
  | RevokeObjectURL string
  | UiOnEnd key

record state =
  pendingMessages :: "key \<rightharpoonup> message"
  replacedTabIds :: "key \<rightharpoonup> key"

type_synonym 'a action = "state \<Rightarrow> (error + 'a) \<times> state \<times> event list"

subsection \<open>JavaScript truthiness\<close>

definition truthyId :: "key \<Rightarrow> bool" where
  "truthyId k = (case k of None \<Rightarrow> False | Some n \<Rightarrow> n \<noteq> 0)"

definition truthyTaskId :: "nat option \<Rightarrow> bool" where
  "truthyTaskId t = (case t of None \<Rightarrow> False | Some n \<Rightarrow> n \<noteq> 0)"

definition truthyUrl :: "string option \<Rightarrow> bool" where
  "truthyUrl u = (case u of None \<Rightarrow> False | Some v \<Rightarrow> v \<noteq> [])"

definition endsWith :: "string \<Rightarrow> string \<Rightarrow> bool" where
  "endsWith s suf \<longleftrightarrow> length suf \<le> length s \<and> drop (length s - length suf) s = suf"

subsection \<open>\<open>isEnabled\<close>\<close>

definition isEnabled :: "collab \<Rightarrow> tab option \<Rightarrow> bool option action" where
  "isEnabled c tabOpt s =
     (case tabOpt of
        None \<Rightarrow> (Inr None, s, [])
      | Some tab \<Rightarrow>
          (case tabsData_get c of
             Inl e \<Rightarrow> (Inl e, s, [])
           | Inr allTabsData \<Rightarrow>
               (case getRule c (tab_url tab) of
                  Inl e \<Rightarrow> (Inl e, s, [])
                | Inr rule \<Rightarrow>
                    (Inr (Some
                       ((atd_autoSaveAll allTabsData \<or>
                         (atd_autoSaveUnpinned allTabsData \<and> \<not> tab_pinned tab) \<or>
                         (case atd_byTab allTabsData (tab_id tab) of
                            None \<Rightarrow> False
                          | Some d \<Rightarrow> td_autoSave d)) \<and>
                        (case rule of
                           None \<Rightarrow> True
                         | Some r \<Rightarrow> rule_autoSaveProfile r \<noteq> DISABLED_PROFILE_NAME c))),
                     s, []))))"

subsection \<open>\<open>saveContent\<close>\<close>

definition mergeOptions :: "options \<Rightarrow> message \<Rightarrow> tab \<Rightarrow> options" where
  "mergeOptions options message tab =
     options\<lparr>opt_captured := msg_captured message,
             opt_backgroundTab := True,
             opt_autoSave := True,
             opt_incognito := tab_incognito tab,
             opt_tabId := tab_id tab,
             opt_tabIndex := tab_index tab\<rparr>"

definition compressionArgs :: "options \<Rightarrow> tab \<Rightarrow> compressionOptions" where
  "compressionArgs options tab =
     \<lparr>co_insertTextBody = opt_insertTextBody options,
      co_url = tab_url tab,
      co_createRootDirectory = opt_createRootDirectory options,
      co_tabId = tab_id tab,
      co_selfExtractingArchive = opt_selfExtractingArchive options,
      co_insertCanonicalLink = opt_insertCanonicalLink options,
      co_insertMetaNoIndex = opt_insertMetaNoIndex options,
      co_password = opt_password options\<rparr>"

text \<open>
  The body of the \<open>try\<close>, in three parts. Each returns the outcome, the value of the
  variable \<open>pageData\<close> when the part is left, and the calls made.
  \<open>deliver\<close> is lines 195 to 200, \<open>processPage\<close> lines 182 to 200 (the branch
  \<open>!skipped\<close>), \<open>tryBlock\<close> lines 174 to 201; \<open>tryBlock\<close> also returns the options,
  whose \<open>filenameConflictAction\<close> the skip test sets.
\<close>

definition deliver ::
  "collab \<Rightarrow> message \<Rightarrow> options \<Rightarrow> pageData \<Rightarrow> blob \<Rightarrow> (error + unit) \<times> pageData \<times> event list" where
  "deliver c message options pageData blob =
     (if opt_saveToGDrive options then
        (uploadPage c (msg_taskId message) (pd_filename pageData) blob options,
         pageData,
         [UploadPage (msg_taskId message) (pd_filename pageData)])
      else
        (let pageData' = pageData\<lparr>pd_url := Some (createObjectURL c blob)\<rparr> in
         (downloadPage c pageData' options,
          pageData',
          [CreateObjectURL (createObjectURL c blob), DownloadPage])))"

definition processPage ::
  "collab \<Rightarrow> message \<Rightarrow> tab \<Rightarrow> options \<Rightarrow> pageData \<Rightarrow> (error + unit) \<times> pageData \<times> event list" where
  "processPage c message tab options pageData =
     (case (if opt_includeInfobar options
            then (includeScript c pageData, [IncludeScript])
            else (Inr pageData, [])) of
        (Inl e, tr1) \<Rightarrow> (Inl e, pageData, tr1)
      | (Inr pageData1, tr1) \<Rightarrow>
          (case compressionProcess c pageData1 (compressionArgs options tab) of
             Inl e \<Rightarrow> (Inl e, pageData1, tr1 @ [CompressionProcess])
           | Inr blob \<Rightarrow>
               (case deliver c message options pageData1 blob of
                  (r, pageData2, tr2) \<Rightarrow> (r, pageData2, tr1 @ [CompressionProcess] @ tr2))))"

definition tryBlock ::
  "collab \<Rightarrow> message \<Rightarrow> tab \<Rightarrow> options \<Rightarrow>
     (error + unit) \<times> pageData option \<times> options \<times> event list" where
  "tryBlock c message tab options =
     (case getPageData c options of
        Inl e \<Rightarrow> (Inl e, None, options, [GetPageData])
      | Inr pageData \<Rightarrow>
          (if \<not> opt_saveToGDrive options then
             (case testSkipSave c (pd_filename pageData) options of
                Inl e \<Rightarrow>
                  (Inl e, Some pageData, options,
                   [GetPageData, TestSkipSave (pd_filename pageData)])
              | Inr t \<Rightarrow>
                  (let options' =
                         options\<lparr>opt_filenameConflictAction := ts_filenameConflictAction t\<rparr>
                   in if \<not> ts_skipped t then
                        (case processPage c message tab options' pageData of
                           (r, pageData', tr) \<Rightarrow>
                             (r, Some pageData', options',
                              [GetPageData, TestSkipSave (pd_filename pageData)] @ tr))
                      else
                        (Inr (), Some pageData, options',
                         [GetPageData, TestSkipSave (pd_filename pageData)])))
           else
             (case processPage c message tab options pageData of
                (r, pageData', tr) \<Rightarrow> (r, Some pageData', options, [GetPageData] @ tr))))"

text \<open>The \<open>finally\<close> block, lines 203 to 212, in its three steps.\<close>

definition signalOrClose :: "message \<Rightarrow> options \<Rightarrow> key \<Rightarrow> state \<Rightarrow> state \<times> event list" where
  "signalOrClose message options tabId s =
     (if truthyTaskId (msg_taskId message) then
        (s, [BusinessOnSaveEnd (the (msg_taskId message))])
      else if opt_autoSaveDiscard options \<and> opt_autoClose options then
        (s\<lparr>replacedTabIds := (replacedTabIds s)(tabId := None)\<rparr>,
         [TabsRemove (case replacedTabIds s tabId of
                        None \<Rightarrow> tabId
                      | Some added \<Rightarrow> if truthyId added then added else tabId)])
      else (s, []))"

definition release :: "pageData option \<Rightarrow> event list" where
  "release pageDataOpt =
     (case pageDataOpt of
        None \<Rightarrow> []
      | Some pageData \<Rightarrow>
          (if truthyUrl (pd_url pageData) then [RevokeObjectURL (the (pd_url pageData))] else []))"

definition finallyBlock ::
  "message \<Rightarrow> options \<Rightarrow> key \<Rightarrow> pageData option \<Rightarrow> state \<Rightarrow> state \<times> event list" where
  "finallyBlock message options tabId pageDataOpt s =
     (case signalOrClose message options tabId s of
        (s', tr) \<Rightarrow> (s', tr @ release pageDataOpt @ [UiOnEnd tabId]))"

definition saveContent :: "collab \<Rightarrow> message \<Rightarrow> tab option \<Rightarrow> unit action" where
  "saveContent c message tabOpt s =
     (case tabOpt of
        None \<Rightarrow> (Inl TypeError, s, [SaveContent message tabOpt])
      | Some tab \<Rightarrow>
          (case getOptions c (tab_url tab) of
             Inl e \<Rightarrow> (Inl e, s, [SaveContent message tabOpt])
           | Inr None \<Rightarrow> (Inr (), s, [SaveContent message tabOpt])
           | Inr (Some options0) \<Rightarrow>
               (case tryBlock c message tab (mergeOptions options0 message tab) of
                  (r, pageDataOpt, options, tr) \<Rightarrow>
                    (case finallyBlock message options (tab_id tab) pageDataOpt s of
                       (s', fin) \<Rightarrow>
                         (r, s',
                          [SaveContent message tabOpt, UiOnStart (tab_id tab)] @ tr @ fin)))))"

subsection \<open>The handlers\<close>

datatype reply =
    InitReply "options option" "bool option" key "int option"
  | SaveReply
  | Undefined

definition deletePending :: "key \<Rightarrow> state \<Rightarrow> state" where
  "deletePending k s = s\<lparr>pendingMessages := (pendingMessages s)(k := None)\<rparr>"

text \<open>
  Lines 55 to 62 of \<open>onMessage\<close>: the request carries \<open>autoSaveDiscard\<close> or
  \<open>autoSaveRemove\<close>. The result is the message (with its \<open>tab\<close> set when the sender has
  one) and what the step did.
\<close>

definition registerOrFlush ::
  "collab \<Rightarrow> message \<Rightarrow> sender \<Rightarrow> state \<Rightarrow> message \<times> (error + unit) \<times> state \<times> event list" where
  "registerOrFlush c message sender s =
     (case sender_tab sender of
        Some tab \<Rightarrow>
          (let message' = message\<lparr>msg_tab := Some tab\<rparr> in
           (message', Inr (),
            s\<lparr>pendingMessages := (pendingMessages s)(tab_id tab \<mapsto> message')\<rparr>, []))
      | None \<Rightarrow>
          (if (case pendingMessages s (msg_tabId message) of
                 None \<Rightarrow> False
               | Some p \<Rightarrow> msg_removed p) \<and> msg_autoSaveRemove message
           then
             (case saveContent c message
                     (Some \<lparr>tab_id = msg_tabId message, tab_index = msg_tabIndex message,
                            tab_url = sender_url sender, tab_pinned = False,
                            tab_incognito = None\<rparr>)
                     (deletePending (msg_tabId message) s) of
                (r, s', tr) \<Rightarrow> (message, r, s', tr))
           else (message, Inr (), s, [])))"

text \<open>
  The end of a branch of \<open>onMessage\<close> that awaits \<open>saveContent\<close>: when the save fails
  the handler fails with it, otherwise it returns \<open>{}\<close>. The first argument is the trace
  of the handler so far.
\<close>

definition acknowledge ::
  "event list \<Rightarrow> (error + unit) \<times> state \<times> event list \<Rightarrow> (error + reply) \<times> state \<times> event list" where
  "acknowledge tr1 res =
     (case res of
        (Inl e, s, tr) \<Rightarrow> (Inl e, s, tr1 @ tr)
      | (Inr u, s, tr) \<Rightarrow> (Inr SaveReply, s, tr1 @ tr))"

definition onMessage :: "collab \<Rightarrow> message \<Rightarrow> sender \<Rightarrow> reply action" where
  "onMessage c message sender s =
     (if endsWith (msg_method message) ''.init'' then
        (case sender_tab sender of
           None \<Rightarrow> (Inl TypeError, s, [])
         | Some tab \<Rightarrow>
             (case getOptions c (tab_url tab) of
                Inl e \<Rightarrow> (Inl e, s, [])
              | Inr options \<Rightarrow>
                  (case isEnabled c (Some tab) s of
                     (Inl e, s', tr) \<Rightarrow> (Inl e, s', tr)
                   | (Inr autoSaveEnabled, s', tr) \<Rightarrow>
                       (Inr (InitReply options autoSaveEnabled (tab_id tab) (tab_index tab)),
                        s', tr))))
      else if endsWith (msg_method message) ''.save'' then
        (if msg_autoSaveDiscard message \<or> msg_autoSaveRemove message then
           (case registerOrFlush c message sender s of
              (message', Inl e, s1, tr1) \<Rightarrow> (Inl e, s1, tr1)
            | (message', Inr u, s1, tr1) \<Rightarrow>
                (if msg_autoSaveUnload message' then
                   acknowledge tr1
                     (saveContent c message' (sender_tab sender)
                        (deletePending (msg_tabId message') s1))
                 else (Inr SaveReply, s1, tr1)))
         else
           acknowledge []
             (saveContent c message (sender_tab sender)
                (deletePending (msg_tabId message) s)))
      else (Inr Undefined, s, []))"

definition onTabUpdated :: "key \<Rightarrow> state \<Rightarrow> state" where
  "onTabUpdated tabId s = deletePending tabId s"

definition onTabRemoved :: "collab \<Rightarrow> key \<Rightarrow> unit action" where
  "onTabRemoved c tabId s =
     (case pendingMessages s tabId of
        Some message \<Rightarrow>
          (if msg_autoSaveRemove message
           then saveContent c message (msg_tab message) (deletePending tabId s)
           else (Inr (), s, []))
      | None \<Rightarrow>
          (Inr (), s\<lparr>pendingMessages := (pendingMessages s)(tabId \<mapsto> closedMarker)\<rparr>, []))"

definition onTabDiscarded :: "collab \<Rightarrow> key \<Rightarrow> unit action" where
  "onTabDiscarded c tabId s =
     (case pendingMessages s tabId of
        Some message \<Rightarrow> saveContent c message (msg_tab message) (deletePending tabId s)
      | None \<Rightarrow> (Inr (), s, []))"

definition onTabReplaced :: "key \<Rightarrow> key \<Rightarrow> state \<Rightarrow> state" where
  "onTabReplaced addedTabId removedTabId s =
     (if pendingMessages s removedTabId \<noteq> None \<and> pendingMessages s addedTabId = None then
        s\<lparr>pendingMessages :=
            ((pendingMessages s)(addedTabId := pendingMessages s removedTabId))
              (removedTabId := None),
          replacedTabIds := (replacedTabIds s)(removedTabId \<mapsto> addedTabId)\<rparr>
      else s)"

subsection \<open>Sequences of events\<close>

datatype input =
    Message message sender
  | TabUpdated key
  | TabRemoved key
  | TabDiscarded key
  | TabReplaced key key

fun step :: "collab \<Rightarrow> input \<Rightarrow> state \<Rightarrow> state \<times> event list" where
  "step c (Message message sender) s = snd (onMessage c message sender s)"
| "step c (TabUpdated tabId) s = (onTabUpdated tabId s, [])"
| "step c (TabRemoved tabId) s = snd (onTabRemoved c tabId s)"
| "step c (TabDiscarded tabId) s = snd (onTabDiscarded c tabId s)"
| "step c (TabReplaced addedTabId removedTabId) s = (onTabReplaced addedTabId removedTabId s, [])"

fun run :: "collab \<Rightarrow> input list \<Rightarrow> state \<Rightarrow> state \<times> event list" where
  "run c [] s = (s, [])"
| "run c (i # is) s =
     (case step c i s of
        (s1, tr1) \<Rightarrow> (case run c is s1 of (s2, tr2) \<Rightarrow> (s2, tr1 @ tr2)))"

fun isSaveContent :: "event \<Rightarrow> bool" where
  "isSaveContent (SaveContent m t) = True"
| "isSaveContent _ = False"

definition saves :: "event list \<Rightarrow> event list" where
  "saves tr = filter isSaveContent tr"

subsection \<open>Reading a trace\<close>

text \<open>
  The calls of the pipeline stages, and the calls of the cleanup. The cleanup part of a
  trace starts at its first cleanup call. \<open>cleanupInOrder\<close> accepts the lists made of at
  most one completion signal or tab removal, then at most one release, then the one
  notification that the save has ended.
\<close>

fun isStageEvent :: "event \<Rightarrow> bool" where
  "isStageEvent GetPageData = True"
| "isStageEvent (TestSkipSave f) = True"
| "isStageEvent IncludeScript = True"
| "isStageEvent CompressionProcess = True"
| "isStageEvent (UploadPage t f) = True"
| "isStageEvent (CreateObjectURL u) = True"
| "isStageEvent DownloadPage = True"
| "isStageEvent _ = False"

fun isLateStage :: "event \<Rightarrow> bool" where
  "isLateStage IncludeScript = True"
| "isLateStage CompressionProcess = True"
| "isLateStage (UploadPage t f) = True"
| "isLateStage (CreateObjectURL u) = True"
| "isLateStage DownloadPage = True"
| "isLateStage _ = False"

fun isCleanupEvent :: "event \<Rightarrow> bool" where
  "isCleanupEvent (BusinessOnSaveEnd t) = True"
| "isCleanupEvent (TabsRemove k) = True"
| "isCleanupEvent (RevokeObjectURL u) = True"
| "isCleanupEvent (UiOnEnd k) = True"
| "isCleanupEvent _ = False"

fun isUiOnEnd :: "event \<Rightarrow> bool" where
  "isUiOnEnd (UiOnEnd k) = True"
| "isUiOnEnd _ = False"

definition cleanupPart :: "event list \<Rightarrow> event list" where
  "cleanupPart tr = dropWhile (\<lambda>e. \<not> isCleanupEvent e) tr"

fun dropSignalOrClose :: "event list \<Rightarrow> event list" where
  "dropSignalOrClose (BusinessOnSaveEnd t # es) = es"
| "dropSignalOrClose (TabsRemove k # es) = es"
| "dropSignalOrClose es = es"

fun dropRelease :: "event list \<Rightarrow> event list" where
  "dropRelease (RevokeObjectURL u # es) = es"
| "dropRelease es = es"

definition cleanupInOrder :: "key \<Rightarrow> event list \<Rightarrow> bool" where
  "cleanupInOrder k cl \<longleftrightarrow> dropRelease (dropSignalOrClose cl) = [UiOnEnd k]"

text \<open>
  Whether the \<open>finally\<close> block of a save for this message and tab takes the branch that
  closes the tab: no truthy \<open>taskId\<close>, and options that resolve with \<open>autoSaveDiscard\<close>
  and \<open>autoClose\<close> set.
\<close>

definition autoCloses :: "collab \<Rightarrow> message \<Rightarrow> tab \<Rightarrow> bool" where
  "autoCloses c m t \<longleftrightarrow>
     \<not> truthyTaskId (msg_taskId m) \<and>
     (case getOptions c (tab_url t) of
        Inl e \<Rightarrow> False
      | Inr None \<Rightarrow> False
      | Inr (Some options) \<Rightarrow> opt_autoSaveDiscard options \<and> opt_autoClose options)"

fun isRevoke :: "event \<Rightarrow> bool" where
  "isRevoke (RevokeObjectURL u) = True"
| "isRevoke _ = False"

fun isTabsRemove :: "event \<Rightarrow> bool" where
  "isTabsRemove (TabsRemove k) = True"
| "isTabsRemove _ = False"

subsection \<open>The first step of the cleanup in the words of the specification\<close>

text \<open>
  Step (a) of the cleanup: when the save carries a correlation id, completion is
  signalled to the caller; else, when the options for discard and for closing are set,
  the current identity of the session is closed, the redirect of the id being resolved
  first, and the redirect is discarded; else nothing.
\<close>

definition currentIdentity :: "state \<Rightarrow> key \<Rightarrow> key" where
  "currentIdentity s tabId =
     (case replacedTabIds s tabId of
        None \<Rightarrow> tabId
      | Some added \<Rightarrow> if truthyId added then added else tabId)"

definition closesSession_spec :: "message \<Rightarrow> options \<Rightarrow> bool" where
  "closesSession_spec message options \<longleftrightarrow>
     \<not> truthyTaskId (msg_taskId message) \<and> opt_autoSaveDiscard options \<and> opt_autoClose options"

definition cleanupStepA_spec :: "message \<Rightarrow> options \<Rightarrow> key \<Rightarrow> state \<Rightarrow> event list" where
  "cleanupStepA_spec message options tabId s =
     (if truthyTaskId (msg_taskId message) then
        (case msg_taskId message of None \<Rightarrow> [] | Some n \<Rightarrow> [BusinessOnSaveEnd n])
      else if closesSession_spec message options then [TabsRemove (currentIdentity s tabId)]
      else [])"

subsection \<open>The eligibility rule in the words of the specification\<close>

definition isEligible_spec ::
  "bool \<Rightarrow> bool \<Rightarrow> bool \<Rightarrow> bool \<Rightarrow> rule option \<Rightarrow> string \<Rightarrow> bool" where
  "isEligible_spec globalAll globalUnpinned pinned optIn r disabledSentinel \<longleftrightarrow>
     (globalAll \<or> (globalUnpinned \<and> \<not> pinned) \<or> optIn) \<and>
     \<not> (case r of None \<Rightarrow> False | Some ru \<Rightarrow> rule_autoSaveProfile ru = disabledSentinel)"

definition optedIn :: "allTabsData \<Rightarrow> key \<Rightarrow> bool" where
  "optedIn d k = (case atd_byTab d k of None \<Rightarrow> False | Some td \<Rightarrow> td_autoSave td)"

subsection \<open>Concrete collaborators and inputs\<close>

definition demoOptions :: options where
  "demoOptions =
     \<lparr>opt_saveToGDrive = False, opt_includeInfobar = False, opt_autoSaveDiscard = False,
      opt_autoClose = False, opt_filenameConflictAction = ''uniquify'',
      opt_insertTextBody = False, opt_createRootDirectory = False,
      opt_selfExtractingArchive = True, opt_insertCanonicalLink = False,
      opt_insertMetaNoIndex = False, opt_password = [], opt_captured = None,
      opt_backgroundTab = False, opt_autoSave = False, opt_incognito = None,
      opt_tabId = None, opt_tabIndex = None\<rparr>"

definition demoPage :: pageData where
  "demoPage = \<lparr>pd_filename = ''page.zip'', pd_content = ''<html></html>'', pd_url = None\<rparr>"

definition demoTabsData :: allTabsData where
  "demoTabsData =
     \<lparr>atd_autoSaveAll = False, atd_autoSaveUnpinned = True, atd_byTab = Map.empty\<rparr>"

definition demoCollab :: collab where
  "demoCollab =
     \<lparr>getOptions = (\<lambda>u. Inr (Some demoOptions)),
      getRule = (\<lambda>u. Inr None),
      tabsData_get = Inr demoTabsData,
      DISABLED_PROFILE_NAME = ''__Disabled_Settings__'',
      getPageData = (\<lambda>opts. Inr demoPage),
      testSkipSave = (\<lambda>f opts. Inr \<lparr>ts_skipped = False, ts_filenameConflictAction = ''uniquify''\<rparr>),
      includeScript = (\<lambda>p. Inr p),
      compressionProcess = (\<lambda>p co. Inr ''archive''),
      uploadPage = (\<lambda>t f b opts. Inr ()),
      createObjectURL = (\<lambda>b. ''blob:1''),
      downloadPage = (\<lambda>p opts. Inr ())\<rparr>"

definition demoTab :: "int \<Rightarrow> tab" where
  "demoTab n =
     \<lparr>tab_id = Some n, tab_index = Some 0, tab_url = ''https://example.org/'',
      tab_pinned = False, tab_incognito = Some False\<rparr>"

definition demoSave :: message where
  "demoSave =
     \<lparr>msg_method = ''autosave.save'', msg_autoSaveDiscard = False,
      msg_autoSaveRemove = False, msg_autoSaveUnload = False, msg_tabId = Some 1,
      msg_tabIndex = Some 0, msg_taskId = None, msg_tab = None, msg_removed = False,
      msg_captured = None\<rparr>"

definition emptyState :: state where
  "emptyState = \<lparr>pendingMessages = Map.empty, replacedTabIds = Map.empty\<rparr>"

definition failingCollab :: collab where
  "failingCollab =
     demoCollab\<lparr>downloadPage := (\<lambda>p opts. Inl (Rejected ''download failed''))\<rparr>"

definition disabledCollab :: collab where
  "disabledCollab =
     demoCollab\<lparr>getRule := (\<lambda>u. Inr (Some \<lparr>rule_autoSaveProfile = ''__Disabled_Settings__''\<rparr>)),
                tabsData_get := Inr (demoTabsData\<lparr>atd_autoSaveAll := True\<rparr>)\<rparr>"

definition noTab :: sender where
  "noTab = \<lparr>sender_tab = None, sender_url = ''https://example.org/''\<rparr>"

definition withTab :: "int \<Rightarrow> sender" where
  "withTab n = \<lparr>sender_tab = Some (demoTab n), sender_url = ''https://example.org/''\<rparr>"

definition storedAt :: "int \<Rightarrow> message \<Rightarrow> state" where
  "storedAt n m = \<lparr>pendingMessages = [Some n \<mapsto> m], replacedTabIds = Map.empty\<rparr>"


definition closingCollab :: collab where
  "closingCollab =
     demoCollab\<lparr>getOptions :=
       (\<lambda>u. Inr (Some (demoOptions\<lparr>opt_autoSaveDiscard := True, opt_autoClose := True\<rparr>)))\<rparr>"

definition removeSave :: message where
  "removeSave = demoSave\<lparr>msg_autoSaveRemove := True\<rparr>"

definition unloadSave :: message where
  "unloadSave = demoSave\<lparr>msg_autoSaveRemove := True, msg_autoSaveUnload := True\<rparr>"

definition taskSave :: message where
  "taskSave = demoSave\<lparr>msg_taskId := Some 7\<rparr>"

definition redirected :: state where
  "redirected = \<lparr>pendingMessages = Map.empty, replacedTabIds = [Some 1 \<mapsto> Some 2]\<rparr>"

section \<open>Properties\<close>

subsection \<open>What a trace of \<open>saveContent\<close> contains\<close>

lemma endsWith_save_not_init: "endsWith m ''.save'' \<Longrightarrow> \<not> endsWith m ''.init''"
  by (auto simp: endsWith_def)

lemma deliver_stage:
  "deliver c m opts pd b = (r, pd', tr) \<Longrightarrow> e \<in> set tr \<Longrightarrow> isStageEvent e"
  by (auto simp: deliver_def Let_def split: if_splits)

lemma processPage_stage:
  "processPage c m t opts pd = (r, pd', tr) \<Longrightarrow> e \<in> set tr \<Longrightarrow> isStageEvent e"
  by (auto simp: processPage_def split: if_splits sum.splits prod.splits dest: deliver_stage)

lemma tryBlock_stage:
  "tryBlock c m t opts = (r, pdo, opts', tr) \<Longrightarrow> e \<in> set tr \<Longrightarrow> isStageEvent e"
  by (auto simp: tryBlock_def Let_def split: if_splits sum.splits prod.splits
      dest: processPage_stage)

lemma deliver_created:
  "deliver c m opts pd b = (r, pd', tr) \<Longrightarrow> CreateObjectURL u \<in> set tr \<Longrightarrow>
     pd_url pd' = Some u \<and> u = createObjectURL c b"
  by (auto simp: deliver_def Let_def split: if_splits)

lemma processPage_created:
  "processPage c m t opts pd = (r, pd', tr) \<Longrightarrow> CreateObjectURL u \<in> set tr \<Longrightarrow>
     pd_url pd' = Some u \<and> (\<exists>b. u = createObjectURL c b)"
  by (auto simp: processPage_def split: if_splits sum.splits prod.splits dest: deliver_created)

lemma tryBlock_created:
  "tryBlock c m t opts = (r, pdo, opts', tr) \<Longrightarrow> CreateObjectURL u \<in> set tr \<Longrightarrow>
     \<exists>pd. pdo = Some pd \<and> pd_url pd = Some u \<and> (\<exists>b. u = createObjectURL c b)"
  by (auto simp: tryBlock_def Let_def split: if_splits sum.splits prod.splits
      dest: processPage_created)

lemma stage_not_cleanup: "isStageEvent e \<Longrightarrow> \<not> isCleanupEvent e"
  by (cases e) auto

lemma stage_not_save: "isStageEvent e \<Longrightarrow> \<not> isSaveContent e"
  by (cases e) auto

lemma stage_not_end: "isStageEvent e \<Longrightarrow> \<not> isUiOnEnd e"
  by (cases e) auto

lemma filter_stage_cleanup: "\<forall>e\<in>set xs. isStageEvent e \<Longrightarrow> filter isCleanupEvent xs = []"
  by (induction xs) (auto dest: stage_not_cleanup)

lemma filter_stage_end: "\<forall>e\<in>set xs. isStageEvent e \<Longrightarrow> filter isUiOnEnd xs = []"
  by (induction xs) (auto dest: stage_not_end)

lemma filter_stage_save: "\<forall>e\<in>set xs. isStageEvent e \<Longrightarrow> filter isSaveContent xs = []"
  by (induction xs) (auto dest: stage_not_save)

lemma dropWhile_stage:
  "\<forall>e\<in>set xs. isStageEvent e \<Longrightarrow>
     dropWhile (\<lambda>e. \<not> isCleanupEvent e) (xs @ ys) = dropWhile (\<lambda>e. \<not> isCleanupEvent e) ys"
  by (induction xs) (auto dest: stage_not_cleanup)

lemma tryBlock_flags:
  "tryBlock c m t opts = (r, pdo, opts', tr) \<Longrightarrow>
     opt_autoSaveDiscard opts' = opt_autoSaveDiscard opts \<and>
     opt_autoClose opts' = opt_autoClose opts"
  by (auto simp: tryBlock_def Let_def split: if_splits sum.splits prod.splits)

lemma mergeOptions_flags:
  "opt_autoSaveDiscard (mergeOptions options m t) = opt_autoSaveDiscard options"
  "opt_autoClose (mergeOptions options m t) = opt_autoClose options"
  by (simp_all add: mergeOptions_def)

lemma stage_not_revoke: "isStageEvent e \<Longrightarrow> \<not> isRevoke e"
  by (cases e) auto

lemma stage_not_tabsRemove: "isStageEvent e \<Longrightarrow> \<not> isTabsRemove e"
  by (cases e) auto

lemma filter_stage_revoke: "\<forall>e\<in>set xs. isStageEvent e \<Longrightarrow> filter isRevoke xs = []"
  by (induction xs) (auto dest: stage_not_revoke)

lemma filter_stage_tabsRemove: "\<forall>e\<in>set xs. isStageEvent e \<Longrightarrow> filter isTabsRemove xs = []"
  by (induction xs) (auto dest: stage_not_tabsRemove)

lemma signalOrClose_spec:
  "signalOrClose m opts k s = (s', soc) \<Longrightarrow>
     soc = cleanupStepA_spec m opts k s \<and>
     replacedTabIds s' =
       (if closesSession_spec m opts then (replacedTabIds s)(k := None) else replacedTabIds s)"
  by (auto simp: signalOrClose_def cleanupStepA_spec_def closesSession_spec_def
      currentIdentity_def truthyTaskId_def split: if_splits option.splits)

lemma cleanupStepA_flags:
  "opt_autoSaveDiscard opts = opt_autoSaveDiscard opts' \<Longrightarrow>
   opt_autoClose opts = opt_autoClose opts' \<Longrightarrow>
   cleanupStepA_spec m opts k s = cleanupStepA_spec m opts' k s \<and>
   closesSession_spec m opts = closesSession_spec m opts'"
  by (simp add: cleanupStepA_spec_def closesSession_spec_def)

lemma signalOrClose_shape:
  "signalOrClose m opts k s = (s', tr) \<Longrightarrow>
     tr = [] \<or> (\<exists>t. tr = [BusinessOnSaveEnd t]) \<or> (\<exists>j. tr = [TabsRemove j])"
  by (auto simp: signalOrClose_def split: if_splits)

lemma signalOrClose_pending:
  "signalOrClose m opts k s = (s', tr) \<Longrightarrow> pendingMessages s' = pendingMessages s"
  by (auto simp: signalOrClose_def split: if_splits)

lemma release_shape: "release pdo = [] \<or> (\<exists>u. release pdo = [RevokeObjectURL u])"
  by (auto simp: release_def split: option.splits)

lemma release_created:
  "pd_url pd = Some u \<Longrightarrow> u \<noteq> [] \<Longrightarrow> release (Some pd) = [RevokeObjectURL u]"
  by (simp add: release_def truthyUrl_def)

text \<open>
  When the options resolve, a trace of \<open>saveContent\<close> is the invocation, the start
  notification, the calls of the \<open>try\<close> block and the three steps of the \<open>finally\<close> block.
\<close>

lemma saveContent_trace:
  assumes "getOptions c (tab_url tab) = Inr (Some options0)"
    and "saveContent c message (Some tab) s = (r, s', tr)"
  shows "\<exists>pdo opts stages soc.
           tryBlock c message tab (mergeOptions options0 message tab) = (r, pdo, opts, stages) \<and>
           signalOrClose message opts (tab_id tab) s = (s', soc) \<and>
           tr = SaveContent message (Some tab) # UiOnStart (tab_id tab) # stages @
                  (soc @ release pdo @ [UiOnEnd (tab_id tab)])"
  using assms
  by (auto simp: saveContent_def finallyBlock_def split: prod.splits)

lemma saveContent_pending:
  "saveContent c m t s = (r, s', tr) \<Longrightarrow> pendingMessages s' = pendingMessages s"
  by (auto simp: saveContent_def finallyBlock_def split: option.splits sum.splits prod.splits
      dest: signalOrClose_pending)

lemma cleanupPart_skip:
  assumes "\<forall>e\<in>set stages. isStageEvent e"
  shows "cleanupPart (SaveContent m t # UiOnStart k # stages @ rest) = cleanupPart rest"
  unfolding cleanupPart_def using dropWhile_stage [OF assms] by simp

lemma cleanupPart_keep: "isCleanupEvent e \<Longrightarrow> cleanupPart (e # es) = e # es"
  by (simp add: cleanupPart_def)

lemma cleanup_tail:
  assumes soc: "soc = [] \<or> (\<exists>t. soc = [BusinessOnSaveEnd t]) \<or> (\<exists>j. soc = [TabsRemove j])"
    and rel: "rel = [] \<or> (\<exists>u. rel = [RevokeObjectURL u])"
  shows "cleanupPart (soc @ rel @ [UiOnEnd k]) = soc @ rel @ [UiOnEnd k]"
    and "filter isCleanupEvent (soc @ rel @ [UiOnEnd k]) = soc @ rel @ [UiOnEnd k]"
    and "filter isUiOnEnd (soc @ rel @ [UiOnEnd k]) = [UiOnEnd k]"
    and "filter isSaveContent (soc @ rel @ [UiOnEnd k]) = []"
    and "cleanupInOrder k (soc @ rel @ [UiOnEnd k])"
    and "CreateObjectURL u \<notin> set (soc @ rel @ [UiOnEnd k])"
    and "filter isStageEvent (soc @ rel @ [UiOnEnd k]) = []"
    and "filter isLateStage (soc @ rel @ [UiOnEnd k]) = []"
    and "filter isRevoke (soc @ rel @ [UiOnEnd k]) = rel"
    and "filter isTabsRemove (soc @ rel @ [UiOnEnd k]) = filter isTabsRemove soc"
    and "length rel \<le> 1"
proof -
  obtain e es where "soc @ rel @ [UiOnEnd k] = e # es" and "isCleanupEvent e"
    using soc rel by (elim disjE exE) simp_all
  then show "cleanupPart (soc @ rel @ [UiOnEnd k]) = soc @ rel @ [UiOnEnd k]"
    by (simp add: cleanupPart_keep)
  show "filter isCleanupEvent (soc @ rel @ [UiOnEnd k]) = soc @ rel @ [UiOnEnd k]"
    using soc rel by (elim disjE exE) simp_all
  show "filter isUiOnEnd (soc @ rel @ [UiOnEnd k]) = [UiOnEnd k]"
    using soc rel by (elim disjE exE) simp_all
  show "filter isSaveContent (soc @ rel @ [UiOnEnd k]) = []"
    using soc rel by (elim disjE exE) simp_all
  show "cleanupInOrder k (soc @ rel @ [UiOnEnd k])"
    using soc rel by (elim disjE exE) (simp_all add: cleanupInOrder_def)
  show "CreateObjectURL u \<notin> set (soc @ rel @ [UiOnEnd k])"
    using soc rel by (elim disjE exE) simp_all
  show "filter isStageEvent (soc @ rel @ [UiOnEnd k]) = []"
    using soc rel by (elim disjE exE) simp_all
  show "filter isLateStage (soc @ rel @ [UiOnEnd k]) = []"
    using soc rel by (elim disjE exE) simp_all
  show "filter isRevoke (soc @ rel @ [UiOnEnd k]) = rel"
    using soc rel by (elim disjE exE) simp_all
  show "filter isTabsRemove (soc @ rel @ [UiOnEnd k]) = filter isTabsRemove soc"
    using soc rel by (elim disjE exE) simp_all
  show "length rel \<le> 1"
    using rel by (elim disjE exE) simp_all
qed

lemma saveContent_saves:
  "saveContent c m t s = (r, s', tr) \<Longrightarrow> saves tr = [SaveContent m t]"
proof (cases "\<exists>tab options0. t = Some tab \<and> getOptions c (tab_url tab) = Inr (Some options0)")
  case False
  assume "saveContent c m t s = (r, s', tr)"
  with False show ?thesis
    by (auto simp: saveContent_def saves_def split: option.splits sum.splits)
next
  case True
  assume run: "saveContent c m t s = (r, s', tr)"
  from True obtain tab options0 where t: "t = Some tab"
    and o: "getOptions c (tab_url tab) = Inr (Some options0)" by blast
  from saveContent_trace [OF o run [unfolded t]] obtain pdo opts stages soc where
    tb: "tryBlock c m tab (mergeOptions options0 m tab) = (r, pdo, opts, stages)"
    and sc: "signalOrClose m opts (tab_id tab) s = (s', soc)"
    and tr: "tr = SaveContent m (Some tab) # UiOnStart (tab_id tab) # stages @
                  (soc @ release pdo @ [UiOnEnd (tab_id tab)])"
    by blast
  have st: "\<forall>e\<in>set stages. isStageEvent e"
    using tryBlock_stage [OF tb] by blast
  have "filter isSaveContent (soc @ release pdo @ [UiOnEnd (tab_id tab)]) = []"
    by (rule cleanup_tail(4) [OF signalOrClose_shape [OF sc] release_shape [of pdo]])
  then have "filter isSaveContent soc = [] \<and> filter isSaveContent (release pdo) = []"
    by simp
  then show ?thesis
    unfolding saves_def tr t by (simp add: filter_stage_save [OF st])
qed

subsection \<open>Cleanup of \<open>saveContent\<close>\<close>

text \<open>
  C1. When the options of the tab's URL resolve to a value, \<open>saveContent\<close> runs its
  cleanup exactly once whatever the outcome, a result or an error of any stage. The
  notification that the save has ended is made exactly once. The cleanup calls are the
  end of the trace, and they are, in this order: the first step as the specification
  words it (the completion signal for the message's task id, or else the removal of the
  current identity of the tab when the resolved options ask for it, or else nothing), at
  most one release, and the notification that the save has ended. An object URL that was
  created is revoked in the cleanup (an object URL is never the empty string). The
  redirect of the tab's id is deleted exactly when the tab is closed, and
  \<open>pendingMessages\<close> is not touched.
\<close>

theorem saveContent_cleanup_once:
  assumes opts: "getOptions c (tab_url tab) = Inr (Some options0)"
    and url: "\<forall>blob. createObjectURL c blob \<noteq> []"
    and run: "saveContent c message (Some tab) s = (r, s', tr)"
  shows "filter isUiOnEnd tr = [UiOnEnd (tab_id tab)] \<and>
         filter isCleanupEvent tr = cleanupPart tr \<and>
         cleanupInOrder (tab_id tab) (cleanupPart tr) \<and>
         (\<forall>u. CreateObjectURL u \<in> set tr \<longrightarrow> RevokeObjectURL u \<in> set (cleanupPart tr)) \<and>
         cleanupPart tr =
           cleanupStepA_spec message options0 (tab_id tab) s @ filter isRevoke tr @
             [UiOnEnd (tab_id tab)] \<and>
         length (filter isRevoke tr) \<le> 1 \<and>
         replacedTabIds s' =
           (if closesSession_spec message options0
            then (replacedTabIds s)(tab_id tab := None) else replacedTabIds s) \<and>
         pendingMessages s' = pendingMessages s"
proof -
  from saveContent_trace [OF opts run] obtain pdo opts' stages soc where
    tb: "tryBlock c message tab (mergeOptions options0 message tab) = (r, pdo, opts', stages)"
    and sc: "signalOrClose message opts' (tab_id tab) s = (s', soc)"
    and tr: "tr = SaveContent message (Some tab) # UiOnStart (tab_id tab) # stages @
                  (soc @ release pdo @ [UiOnEnd (tab_id tab)])"
    by blast
  have st: "\<forall>e\<in>set stages. isStageEvent e"
    using tryBlock_stage [OF tb] by blast
  note tail = cleanup_tail [OF signalOrClose_shape [OF sc] release_shape [of pdo]]
  have cp: "cleanupPart tr = soc @ release pdo @ [UiOnEnd (tab_id tab)]"
    unfolding tr by (simp only: cleanupPart_skip [OF st] tail(1))
  have "filter isUiOnEnd tr = [UiOnEnd (tab_id tab)]"
    using tail(3) [of "tab_id tab"] unfolding tr by (simp add: filter_stage_end [OF st])
  moreover have "filter isCleanupEvent tr = cleanupPart tr"
    using tail(2) [of "tab_id tab"] unfolding cp unfolding tr
    by (simp add: filter_stage_cleanup [OF st])
  moreover have "cleanupInOrder (tab_id tab) (cleanupPart tr)"
    unfolding cp by (rule tail(5))
  moreover have "RevokeObjectURL u \<in> set (cleanupPart tr)" if "CreateObjectURL u \<in> set tr" for u
  proof -
    from that have "CreateObjectURL u \<in> set stages \<or>
        CreateObjectURL u \<in> set (soc @ release pdo @ [UiOnEnd (tab_id tab)])"
      unfolding tr by simp
    with tail(6) [of u "tab_id tab"] have "CreateObjectURL u \<in> set stages" by blast
    from tryBlock_created [OF tb this] obtain pd b where
      "pdo = Some pd" "pd_url pd = Some u" "u = createObjectURL c b" by blast
    with url have "release pdo = [RevokeObjectURL u]"
      by (simp add: release_created)
    then show ?thesis by (simp add: cp)
  qed
  moreover have fl: "opt_autoSaveDiscard opts' = opt_autoSaveDiscard options0"
    "opt_autoClose opts' = opt_autoClose options0"
    using tryBlock_flags [OF tb] by (simp_all add: mergeOptions_flags)
  have rv: "filter isRevoke tr = release pdo"
    using tail(9) [of "tab_id tab"] unfolding tr by (simp add: filter_stage_revoke [OF st])
  have "cleanupPart tr =
      cleanupStepA_spec message options0 (tab_id tab) s @ filter isRevoke tr @
        [UiOnEnd (tab_id tab)]"
    using signalOrClose_spec [OF sc] cleanupStepA_flags [OF fl]
    by (simp add: cp rv)
  moreover have "length (filter isRevoke tr) \<le> 1"
    unfolding rv by (rule tail(11))
  moreover have "replacedTabIds s' =
      (if closesSession_spec message options0
       then (replacedTabIds s)(tab_id tab := None) else replacedTabIds s)"
    using signalOrClose_spec [OF sc] cleanupStepA_flags [OF fl] by simp
  moreover have "pendingMessages s' = pendingMessages s"
    by (rule signalOrClose_pending [OF sc])
  ultimately show ?thesis by blast
qed

lemma failingCollab_sel:
  "getOptions failingCollab = (\<lambda>u. Inr (Some demoOptions))"
  "getPageData failingCollab = (\<lambda>opts. Inr demoPage)"
  "testSkipSave failingCollab =
     (\<lambda>f opts. Inr \<lparr>ts_skipped = False, ts_filenameConflictAction = ''uniquify''\<rparr>)"
  "compressionProcess failingCollab = (\<lambda>p co. Inr ''archive'')"
  "createObjectURL failingCollab = (\<lambda>b. ''blob:1'')"
  "downloadPage failingCollab = (\<lambda>p opts. Inl (Rejected ''download failed''))"
  by (simp_all add: failingCollab_def demoCollab_def)

lemma mergeOptions_demo:
  "opt_saveToGDrive (mergeOptions demoOptions m t) = False"
  "opt_includeInfobar (mergeOptions demoOptions m t) = False"
  "opt_autoSaveDiscard (mergeOptions demoOptions m t) = False"
  "opt_autoClose (mergeOptions demoOptions m t) = False"
  by (simp_all add: mergeOptions_def demoOptions_def)

lemma deliver_failing:
  "\<not> opt_saveToGDrive opts \<Longrightarrow>
   deliver failingCollab m opts pd ''archive'' =
     (Inl (Rejected ''download failed''), pd\<lparr>pd_url := Some ''blob:1''\<rparr>,
      [CreateObjectURL ''blob:1'', DownloadPage])"
  by (simp add: deliver_def failingCollab_sel)

lemma processPage_failing:
  "\<not> opt_saveToGDrive opts \<Longrightarrow> \<not> opt_includeInfobar opts \<Longrightarrow>
   processPage failingCollab m t opts pd =
     (Inl (Rejected ''download failed''), pd\<lparr>pd_url := Some ''blob:1''\<rparr>,
      [CompressionProcess, CreateObjectURL ''blob:1'', DownloadPage])"
  by (simp add: processPage_def failingCollab_sel deliver_failing)

lemma tryBlock_failing:
  "\<not> opt_saveToGDrive opts \<Longrightarrow> \<not> opt_includeInfobar opts \<Longrightarrow>
   tryBlock failingCollab m t opts =
     (Inl (Rejected ''download failed''), Some (demoPage\<lparr>pd_url := Some ''blob:1''\<rparr>),
      opts\<lparr>opt_filenameConflictAction := ''uniquify''\<rparr>,
      [GetPageData, TestSkipSave ''page.zip'', CompressionProcess,
       CreateObjectURL ''blob:1'', DownloadPage])"
  by (simp add: tryBlock_def failingCollab_sel processPage_failing)
    (simp add: demoPage_def)

lemma saveContent_failing:
  "saveContent failingCollab taskSave (Some (demoTab 1)) emptyState =
     (Inl (Rejected ''download failed''), emptyState,
      [SaveContent taskSave (Some (demoTab 1)), UiOnStart (Some 1), GetPageData,
       TestSkipSave ''page.zip'', CompressionProcess, CreateObjectURL ''blob:1'',
       DownloadPage, BusinessOnSaveEnd 7, RevokeObjectURL ''blob:1'', UiOnEnd (Some 1)])"
proof -
  have tid: "tab_id (demoTab 1) = Some 1"
    by (simp add: demoTab_def)
  have fin: "finallyBlock taskSave
               ((mergeOptions demoOptions taskSave (demoTab 1))
                  \<lparr>opt_filenameConflictAction := ''uniquify''\<rparr>)
               (Some 1) (Some (demoPage\<lparr>pd_url := Some ''blob:1''\<rparr>)) emptyState =
             (emptyState, [BusinessOnSaveEnd 7, RevokeObjectURL ''blob:1'', UiOnEnd (Some 1)])"
    by (simp add: finallyBlock_def signalOrClose_def release_def truthyUrl_def
        truthyTaskId_def taskSave_def mergeOptions_demo)
  show ?thesis
    by (simp add: saveContent_def failingCollab_sel tryBlock_failing mergeOptions_demo
        tid fin)
qed

lemma closingCollab_sel:
  "getOptions closingCollab =
     (\<lambda>u. Inr (Some (demoOptions\<lparr>opt_autoSaveDiscard := True, opt_autoClose := True\<rparr>)))"
  "getPageData closingCollab = (\<lambda>opts. Inr demoPage)"
  "testSkipSave closingCollab =
     (\<lambda>f opts. Inr \<lparr>ts_skipped = False, ts_filenameConflictAction = ''uniquify''\<rparr>)"
  "compressionProcess closingCollab = (\<lambda>p co. Inr ''archive'')"
  "createObjectURL closingCollab = (\<lambda>b. ''blob:1'')"
  "downloadPage closingCollab = (\<lambda>p opts. Inr ())"
  by (simp_all add: closingCollab_def demoCollab_def)

lemma mergeOptions_closing:
  "opt_saveToGDrive
     (mergeOptions (demoOptions\<lparr>opt_autoSaveDiscard := True, opt_autoClose := True\<rparr>) m t) = False"
  "opt_includeInfobar
     (mergeOptions (demoOptions\<lparr>opt_autoSaveDiscard := True, opt_autoClose := True\<rparr>) m t) = False"
  "opt_autoSaveDiscard
     (mergeOptions (demoOptions\<lparr>opt_autoSaveDiscard := True, opt_autoClose := True\<rparr>) m t) = True"
  "opt_autoClose
     (mergeOptions (demoOptions\<lparr>opt_autoSaveDiscard := True, opt_autoClose := True\<rparr>) m t) = True"
  by (simp_all add: mergeOptions_def demoOptions_def)

lemma tryBlock_closing:
  "\<not> opt_saveToGDrive opts \<Longrightarrow> \<not> opt_includeInfobar opts \<Longrightarrow>
   tryBlock closingCollab m t opts =
     (Inr (), Some (demoPage\<lparr>pd_url := Some ''blob:1''\<rparr>),
      opts\<lparr>opt_filenameConflictAction := ''uniquify''\<rparr>,
      [GetPageData, TestSkipSave ''page.zip'', CompressionProcess,
       CreateObjectURL ''blob:1'', DownloadPage])"
  by (simp add: tryBlock_def processPage_def deliver_def closingCollab_sel)
    (simp add: demoPage_def)

lemma saveContent_closing:
  "saveContent closingCollab demoSave (Some (demoTab 1)) redirected =
     (Inr (), emptyState,
      [SaveContent demoSave (Some (demoTab 1)), UiOnStart (Some 1), GetPageData,
       TestSkipSave ''page.zip'', CompressionProcess, CreateObjectURL ''blob:1'',
       DownloadPage, TabsRemove (Some 2), RevokeObjectURL ''blob:1'', UiOnEnd (Some 1)])"
proof -
  have tid: "tab_id (demoTab 1) = Some 1"
    by (simp add: demoTab_def)
  have fin: "finallyBlock demoSave
               ((mergeOptions (demoOptions\<lparr>opt_autoSaveDiscard := True, opt_autoClose := True\<rparr>)
                   demoSave (demoTab 1))
                  \<lparr>opt_filenameConflictAction := ''uniquify''\<rparr>)
               (Some 1) (Some (demoPage\<lparr>pd_url := Some ''blob:1''\<rparr>)) redirected =
             (emptyState, [TabsRemove (Some 2), RevokeObjectURL ''blob:1'', UiOnEnd (Some 1)])"
    by (simp add: finallyBlock_def signalOrClose_def release_def truthyUrl_def
        truthyTaskId_def truthyId_def demoSave_def mergeOptions_closing redirected_def
        emptyState_def)
  show ?thesis
    by (simp add: saveContent_def closingCollab_sel tryBlock_closing mergeOptions_closing
        tid fin)
qed

theorem saveContent_cleanup_once_witness:
  "getOptions failingCollab (tab_url (demoTab 1)) = Inr (Some demoOptions) \<and>
   (\<forall>blob. createObjectURL failingCollab blob \<noteq> []) \<and>
   fst (saveContent failingCollab taskSave (Some (demoTab 1)) emptyState) =
     Inl (Rejected ''download failed'') \<and>
   filter isUiOnEnd (snd (snd (saveContent failingCollab taskSave (Some (demoTab 1)) emptyState))) =
     [UiOnEnd (Some 1)] \<and>
   cleanupStepA_spec taskSave demoOptions (Some 1) emptyState = [BusinessOnSaveEnd 7] \<and>
   cleanupPart (snd (snd (saveContent failingCollab taskSave (Some (demoTab 1)) emptyState))) =
     [BusinessOnSaveEnd 7, RevokeObjectURL ''blob:1'', UiOnEnd (Some 1)] \<and>
   getOptions closingCollab (tab_url (demoTab 1)) =
     Inr (Some (demoOptions\<lparr>opt_autoSaveDiscard := True, opt_autoClose := True\<rparr>)) \<and>
   (\<forall>blob. createObjectURL closingCollab blob \<noteq> []) \<and>
   cleanupStepA_spec demoSave (demoOptions\<lparr>opt_autoSaveDiscard := True, opt_autoClose := True\<rparr>)
     (Some 1) redirected = [TabsRemove (Some 2)] \<and>
   cleanupPart (snd (snd (saveContent closingCollab demoSave (Some (demoTab 1)) redirected))) =
     [TabsRemove (Some 2), RevokeObjectURL ''blob:1'', UiOnEnd (Some 1)] \<and>
   replacedTabIds (fst (snd (saveContent closingCollab demoSave (Some (demoTab 1)) redirected)))
     (Some 1) = None"
proof -
  have o: "getOptions failingCollab (tab_url (demoTab 1)) = Inr (Some demoOptions)"
    and u: "\<forall>blob. createObjectURL failingCollab blob \<noteq> []"
    by (simp_all add: failingCollab_sel)
  have o': "getOptions closingCollab (tab_url (demoTab 1)) =
      Inr (Some (demoOptions\<lparr>opt_autoSaveDiscard := True, opt_autoClose := True\<rparr>))"
    and u': "\<forall>blob. createObjectURL closingCollab blob \<noteq> []"
    by (simp_all add: closingCollab_sel)
  have tid: "tab_id (demoTab 1) = Some 1"
    by (simp add: demoTab_def)
  have a: "cleanupStepA_spec taskSave demoOptions (Some 1) emptyState = [BusinessOnSaveEnd 7]"
    by (simp add: cleanupStepA_spec_def truthyTaskId_def taskSave_def)
  have a': "cleanupStepA_spec demoSave
      (demoOptions\<lparr>opt_autoSaveDiscard := True, opt_autoClose := True\<rparr>) (Some 1) redirected =
      [TabsRemove (Some 2)]"
    by (simp add: cleanupStepA_spec_def closesSession_spec_def currentIdentity_def
        truthyTaskId_def truthyId_def demoSave_def redirected_def)
  note t1 = saveContent_cleanup_once [OF o u saveContent_failing]
  note t2 = saveContent_cleanup_once [OF o' u' saveContent_closing]
  have c1: "cleanupPart
      [SaveContent taskSave (Some (demoTab 1)), UiOnStart (Some 1), GetPageData,
       TestSkipSave ''page.zip'', CompressionProcess, CreateObjectURL ''blob:1'',
       DownloadPage, BusinessOnSaveEnd 7, RevokeObjectURL ''blob:1'', UiOnEnd (Some 1)] =
      [BusinessOnSaveEnd 7, RevokeObjectURL ''blob:1'', UiOnEnd (Some 1)]"
    using t1 by (simp add: tid a)
  have c2: "cleanupPart
      [SaveContent demoSave (Some (demoTab 1)), UiOnStart (Some 1), GetPageData,
       TestSkipSave ''page.zip'', CompressionProcess, CreateObjectURL ''blob:1'',
       DownloadPage, TabsRemove (Some 2), RevokeObjectURL ''blob:1'', UiOnEnd (Some 1)] =
      [TabsRemove (Some 2), RevokeObjectURL ''blob:1'', UiOnEnd (Some 1)]"
    using t2 by (simp add: tid a')
  have es: "replacedTabIds emptyState (Some 1) = None"
    by (simp add: emptyState_def)
  show ?thesis
    using o u o' u' a a' c1 c2 es
    by (simp add: saveContent_failing saveContent_closing)
qed

subsection \<open>Eligibility\<close>

text \<open>
  C8. For a tab that is present, when the stored flags and the rule of the tab's URL are
  read without failure, \<open>isEnabled\<close> returns true exactly when (the flag for all tabs, or
  the flag for unpinned tabs and the tab is not pinned, or the tab's own flag) holds and
  no rule of the URL has the disabled profile. A missing rule overrides nothing. The call
  leaves the state as it is and makes no call with an effect.
\<close>

theorem isEnabled_eligible:
  assumes "tabsData_get c = Inr d" and "getRule c (tab_url tab) = Inr r"
  shows "isEnabled c (Some tab) s =
           (Inr (Some (isEligible_spec (atd_autoSaveAll d) (atd_autoSaveUnpinned d)
                         (tab_pinned tab) (optedIn d (tab_id tab)) r
                         (DISABLED_PROFILE_NAME c))), s, []) \<and>
         (r = None \<longrightarrow>
            fst (isEnabled c (Some tab) s) =
              Inr (Some (atd_autoSaveAll d \<or> (atd_autoSaveUnpinned d \<and> \<not> tab_pinned tab) \<or>
                         optedIn d (tab_id tab))))"
  using assms
  by (auto simp: isEnabled_def isEligible_spec_def optedIn_def split: option.splits)

theorem isEnabled_eligible_witness:
  "tabsData_get disabledCollab = Inr (demoTabsData\<lparr>atd_autoSaveAll := True\<rparr>) \<and>
   getRule disabledCollab (tab_url (demoTab 1)) =
     Inr (Some \<lparr>rule_autoSaveProfile = ''__Disabled_Settings__''\<rparr>) \<and>
   isEnabled disabledCollab (Some (demoTab 1)) emptyState = (Inr (Some False), emptyState, []) \<and>
   tabsData_get demoCollab = Inr demoTabsData \<and>
   getRule demoCollab (tab_url (demoTab 1)) = Inr None \<and>
   isEnabled demoCollab (Some (demoTab 1)) emptyState = (Inr (Some True), emptyState, []) \<and>
   isEnabled demoCollab (Some ((demoTab 1)\<lparr>tab_pinned := True\<rparr>)) emptyState =
     (Inr (Some False), emptyState, [])"
proof -
  have d: "tabsData_get disabledCollab = Inr (demoTabsData\<lparr>atd_autoSaveAll := True\<rparr>)"
    and r: "getRule disabledCollab (tab_url (demoTab 1)) =
              Inr (Some \<lparr>rule_autoSaveProfile = ''__Disabled_Settings__''\<rparr>)"
    and n: "DISABLED_PROFILE_NAME disabledCollab = ''__Disabled_Settings__''"
    by (simp_all add: disabledCollab_def demoCollab_def)
  have d': "tabsData_get demoCollab = Inr demoTabsData"
    and r': "getRule demoCollab (tab_url (demoTab 1)) = Inr None"
    and r'': "getRule demoCollab (tab_url ((demoTab 1)\<lparr>tab_pinned := True\<rparr>)) = Inr None"
    by (simp_all add: demoCollab_def)
  have 1: "isEnabled disabledCollab (Some (demoTab 1)) emptyState =
             (Inr (Some False), emptyState, [])"
    using isEnabled_eligible [OF d r, of emptyState]
    by (simp add: isEligible_spec_def n)
  have 2: "isEnabled demoCollab (Some (demoTab 1)) emptyState =
             (Inr (Some True), emptyState, [])"
    using isEnabled_eligible [OF d' r', of emptyState]
    by (simp add: isEligible_spec_def demoTabsData_def demoTab_def)
  have 3: "isEnabled demoCollab (Some ((demoTab 1)\<lparr>tab_pinned := True\<rparr>)) emptyState =
             (Inr (Some False), emptyState, [])"
    using isEnabled_eligible [OF d' r'', of emptyState]
    by (simp add: isEligible_spec_def demoTabsData_def demoTab_def optedIn_def)
  show ?thesis
    using d r d' r' 1 2 3 by simp
qed

subsection \<open>Requests of \<open>onMessage\<close>\<close>

text \<open>
  C9. A save request that carries \<open>autoSaveDiscard\<close>, neither \<open>autoSaveRemove\<close> nor
  \<open>autoSaveUnload\<close>, and whose sender has no tab, is dropped: the state is the one
  before, \<open>saveContent\<close> is not invoked and no other call is made; the request is
  acknowledged.
\<close>

theorem onMessage_discard_only_dropped:
  assumes "endsWith (msg_method message) ''.save''"
    and "msg_autoSaveDiscard message"
    and "\<not> msg_autoSaveRemove message"
    and "\<not> msg_autoSaveUnload message"
    and "sender_tab sender = None"
  shows "onMessage c message sender s = (Inr SaveReply, s, [])"
  using assms endsWith_save_not_init [OF assms(1)]
  by (simp add: onMessage_def registerOrFlush_def)

theorem onMessage_discard_only_dropped_witness:
  "endsWith (msg_method (demoSave\<lparr>msg_autoSaveDiscard := True\<rparr>)) ''.save'' \<and>
   msg_autoSaveDiscard (demoSave\<lparr>msg_autoSaveDiscard := True\<rparr>) \<and>
   \<not> msg_autoSaveRemove (demoSave\<lparr>msg_autoSaveDiscard := True\<rparr>) \<and>
   \<not> msg_autoSaveUnload (demoSave\<lparr>msg_autoSaveDiscard := True\<rparr>) \<and>
   sender_tab noTab = None \<and>
   onMessage demoCollab (demoSave\<lparr>msg_autoSaveDiscard := True\<rparr>) noTab emptyState =
     (Inr SaveReply, emptyState, [])"
proof -
  have 1: "endsWith (msg_method (demoSave\<lparr>msg_autoSaveDiscard := True\<rparr>)) ''.save''"
    by (simp add: demoSave_def endsWith_def)
  have 2: "msg_autoSaveDiscard (demoSave\<lparr>msg_autoSaveDiscard := True\<rparr>)"
    and 3: "\<not> msg_autoSaveRemove (demoSave\<lparr>msg_autoSaveDiscard := True\<rparr>)"
    and 4: "\<not> msg_autoSaveUnload (demoSave\<lparr>msg_autoSaveDiscard := True\<rparr>)"
    by (simp_all add: demoSave_def)
  have 5: "sender_tab noTab = None"
    by (simp add: noTab_def)
  from onMessage_discard_only_dropped [OF 1 2 3 4 5, of demoCollab emptyState]
  show ?thesis using 1 2 3 4 5 by simp
qed

subsection \<open>Closing a tab\<close>

text \<open>
  C5. \<open>onTabRemoved\<close> by the entry of the tab id. With no entry it writes the marker
  \<open>{ removed: true }\<close> and invokes nothing. With an entry that carries \<open>autoSaveRemove\<close>
  it invokes \<open>saveContent\<close> exactly once, with the entry and the tab stored in it, and
  the entry is deleted. With an entry that does not carry \<open>autoSaveRemove\<close> it invokes
  nothing and the state is the one before.
\<close>

theorem onTabRemoved_by_state:
  "(pendingMessages s tabId = None \<longrightarrow>
      onTabRemoved c tabId s =
        (Inr (), s\<lparr>pendingMessages := (pendingMessages s)(tabId \<mapsto> closedMarker)\<rparr>, [])) \<and>
   (\<forall>m. pendingMessages s tabId = Some m \<and> msg_autoSaveRemove m \<longrightarrow>
      saves (snd (snd (onTabRemoved c tabId s))) = [SaveContent m (msg_tab m)] \<and>
      pendingMessages (fst (snd (onTabRemoved c tabId s))) = (pendingMessages s)(tabId := None)) \<and>
   (\<forall>m. pendingMessages s tabId = Some m \<and> \<not> msg_autoSaveRemove m \<longrightarrow>
      onTabRemoved c tabId s = (Inr (), s, []))"
proof (intro conjI allI impI)
  assume "pendingMessages s tabId = None"
  then show "onTabRemoved c tabId s =
      (Inr (), s\<lparr>pendingMessages := (pendingMessages s)(tabId \<mapsto> closedMarker)\<rparr>, [])"
    by (simp add: onTabRemoved_def)
next
  fix m
  assume m: "pendingMessages s tabId = Some m \<and> msg_autoSaveRemove m"
  obtain r s' tr where run: "saveContent c m (msg_tab m) (deletePending tabId s) = (r, s', tr)"
    by (cases "saveContent c m (msg_tab m) (deletePending tabId s)") auto
  from m run have eq: "onTabRemoved c tabId s = (r, s', tr)"
    by (simp add: onTabRemoved_def)
  show "saves (snd (snd (onTabRemoved c tabId s))) = [SaveContent m (msg_tab m)]"
    using saveContent_saves [OF run] by (simp add: eq)
  show "pendingMessages (fst (snd (onTabRemoved c tabId s))) = (pendingMessages s)(tabId := None)"
    using saveContent_pending [OF run] by (simp add: eq deletePending_def)
next
  fix m
  assume "pendingMessages s tabId = Some m \<and> \<not> msg_autoSaveRemove m"
  then show "onTabRemoved c tabId s = (Inr (), s, [])"
    by (simp add: onTabRemoved_def)
qed

text \<open>
  A run of \<open>saveContent\<close> with collaborators that all succeed, for a message without
  \<open>taskId\<close>: the page is delivered by download and the object URL is revoked.
\<close>

lemma demoCollab_sel:
  "getOptions demoCollab = (\<lambda>u. Inr (Some demoOptions))"
  "getPageData demoCollab = (\<lambda>opts. Inr demoPage)"
  "testSkipSave demoCollab =
     (\<lambda>f opts. Inr \<lparr>ts_skipped = False, ts_filenameConflictAction = ''uniquify''\<rparr>)"
  "compressionProcess demoCollab = (\<lambda>p co. Inr ''archive'')"
  "createObjectURL demoCollab = (\<lambda>b. ''blob:1'')"
  "downloadPage demoCollab = (\<lambda>p opts. Inr ())"
  by (simp_all add: demoCollab_def)

lemma tryBlock_demo:
  "\<not> opt_saveToGDrive opts \<Longrightarrow> \<not> opt_includeInfobar opts \<Longrightarrow>
   tryBlock demoCollab m t opts =
     (Inr (), Some (demoPage\<lparr>pd_url := Some ''blob:1''\<rparr>),
      opts\<lparr>opt_filenameConflictAction := ''uniquify''\<rparr>,
      [GetPageData, TestSkipSave ''page.zip'', CompressionProcess,
       CreateObjectURL ''blob:1'', DownloadPage])"
  by (simp add: tryBlock_def processPage_def deliver_def demoCollab_sel)
    (simp add: demoPage_def)

lemma saveContent_demo:
  assumes "msg_taskId m = None"
  shows "saveContent demoCollab m (Some t) s =
     (Inr (), s,
      [SaveContent m (Some t), UiOnStart (tab_id t), GetPageData,
       TestSkipSave ''page.zip'', CompressionProcess, CreateObjectURL ''blob:1'',
       DownloadPage, RevokeObjectURL ''blob:1'', UiOnEnd (tab_id t)])"
proof -
  have fin: "finallyBlock m
               ((mergeOptions demoOptions m t)\<lparr>opt_filenameConflictAction := ''uniquify''\<rparr>)
               (tab_id t) (Some (demoPage\<lparr>pd_url := Some ''blob:1''\<rparr>)) s =
             (s, [RevokeObjectURL ''blob:1'', UiOnEnd (tab_id t)])"
    using assms
    by (simp add: finallyBlock_def signalOrClose_def release_def truthyUrl_def
        truthyTaskId_def mergeOptions_demo)
  show ?thesis
    by (simp add: saveContent_def demoCollab_sel tryBlock_demo mergeOptions_demo fin)
qed

theorem onTabRemoved_by_state_witness:
  "pendingMessages emptyState (Some 1) = None \<and>
   onTabRemoved demoCollab (Some 1) emptyState = (Inr (), storedAt 1 closedMarker, []) \<and>
   pendingMessages
     (storedAt 1 (demoSave\<lparr>msg_autoSaveRemove := True, msg_tab := Some (demoTab 1)\<rparr>))
     (Some 1) =
     Some (demoSave\<lparr>msg_autoSaveRemove := True, msg_tab := Some (demoTab 1)\<rparr>) \<and>
   msg_autoSaveRemove (demoSave\<lparr>msg_autoSaveRemove := True, msg_tab := Some (demoTab 1)\<rparr>) \<and>
   saves (snd (snd (onTabRemoved demoCollab (Some 1)
      (storedAt 1 (demoSave\<lparr>msg_autoSaveRemove := True, msg_tab := Some (demoTab 1)\<rparr>))))) =
     [SaveContent (demoSave\<lparr>msg_autoSaveRemove := True, msg_tab := Some (demoTab 1)\<rparr>)
        (Some (demoTab 1))] \<and>
   pendingMessages (fst (snd (onTabRemoved demoCollab (Some 1)
      (storedAt 1 (demoSave\<lparr>msg_autoSaveRemove := True, msg_tab := Some (demoTab 1)\<rparr>)))))
     (Some 1) = None \<and>
   pendingMessages (storedAt 1 (demoSave\<lparr>msg_tab := Some (demoTab 1)\<rparr>)) (Some 1) =
     Some (demoSave\<lparr>msg_tab := Some (demoTab 1)\<rparr>) \<and>
   \<not> msg_autoSaveRemove (demoSave\<lparr>msg_tab := Some (demoTab 1)\<rparr>) \<and>
   onTabRemoved demoCollab (Some 1) (storedAt 1 (demoSave\<lparr>msg_tab := Some (demoTab 1)\<rparr>)) =
     (Inr (), storedAt 1 (demoSave\<lparr>msg_tab := Some (demoTab 1)\<rparr>), [])"
proof -
  have a: "pendingMessages emptyState (Some 1) = None"
    by (simp add: emptyState_def)
  have b: "pendingMessages
      (storedAt 1 (demoSave\<lparr>msg_autoSaveRemove := True, msg_tab := Some (demoTab 1)\<rparr>))
      (Some 1) =
      Some (demoSave\<lparr>msg_autoSaveRemove := True, msg_tab := Some (demoTab 1)\<rparr>) \<and>
    msg_autoSaveRemove (demoSave\<lparr>msg_autoSaveRemove := True, msg_tab := Some (demoTab 1)\<rparr>)"
    by (simp add: storedAt_def)
  have d: "pendingMessages (storedAt 1 (demoSave\<lparr>msg_tab := Some (demoTab 1)\<rparr>)) (Some 1) =
      Some (demoSave\<lparr>msg_tab := Some (demoTab 1)\<rparr>) \<and>
    \<not> msg_autoSaveRemove (demoSave\<lparr>msg_tab := Some (demoTab 1)\<rparr>)"
    by (simp add: storedAt_def demoSave_def)
  have 1: "onTabRemoved demoCollab (Some 1) emptyState = (Inr (), storedAt 1 closedMarker, [])"
    using onTabRemoved_by_state [of emptyState "Some 1" demoCollab] a
    by (simp add: emptyState_def storedAt_def)
  have 2: "saves (snd (snd (onTabRemoved demoCollab (Some 1)
      (storedAt 1 (demoSave\<lparr>msg_autoSaveRemove := True, msg_tab := Some (demoTab 1)\<rparr>))))) =
     [SaveContent (demoSave\<lparr>msg_autoSaveRemove := True, msg_tab := Some (demoTab 1)\<rparr>)
        (Some (demoTab 1))] \<and>
   pendingMessages (fst (snd (onTabRemoved demoCollab (Some 1)
      (storedAt 1 (demoSave\<lparr>msg_autoSaveRemove := True, msg_tab := Some (demoTab 1)\<rparr>)))))
     (Some 1) = None"
    using onTabRemoved_by_state
      [of "storedAt 1 (demoSave\<lparr>msg_autoSaveRemove := True, msg_tab := Some (demoTab 1)\<rparr>)"
          "Some 1" demoCollab] b
    by simp
  have 3: "onTabRemoved demoCollab (Some 1)
      (storedAt 1 (demoSave\<lparr>msg_tab := Some (demoTab 1)\<rparr>)) =
     (Inr (), storedAt 1 (demoSave\<lparr>msg_tab := Some (demoTab 1)\<rparr>), [])"
    using onTabRemoved_by_state
      [of "storedAt 1 (demoSave\<lparr>msg_tab := Some (demoTab 1)\<rparr>)" "Some 1" demoCollab] d
    by simp
  show ?thesis
    using a b d 1 2 3 by simp
qed

subsection \<open>Discarding a tab\<close>

text \<open>
  \<open>onTabDiscarded\<close> with no entry for the tab id does nothing. With an entry, whatever
  its flags, it deletes the entry and invokes \<open>saveContent\<close> once, with the entry and
  the tab stored in it.
\<close>

lemma onTabDiscarded_absent:
  "pendingMessages s tabId = None \<Longrightarrow> onTabDiscarded c tabId s = (Inr (), s, [])"
  by (simp add: onTabDiscarded_def)

lemma onTabDiscarded_entry:
  assumes "pendingMessages s tabId = Some m"
  shows "saves (snd (snd (onTabDiscarded c tabId s))) = [SaveContent m (msg_tab m)] \<and>
         pendingMessages (fst (snd (onTabDiscarded c tabId s))) =
           (pendingMessages s)(tabId := None)"
proof -
  obtain r s' tr where run: "saveContent c m (msg_tab m) (deletePending tabId s) = (r, s', tr)"
    by (cases "saveContent c m (msg_tab m) (deletePending tabId s)") auto
  from assms run have eq: "onTabDiscarded c tabId s = (r, s', tr)"
    by (simp add: onTabDiscarded_def)
  show ?thesis
    using saveContent_saves [OF run] saveContent_pending [OF run]
    by (simp add: eq deletePending_def)
qed

text \<open>
  C2. The marker \<open>{ removed: true }\<close> is an entry like any other for \<open>onTabDiscarded\<close>:
  after \<open>onTabRemoved\<close> has written the marker for tab 5, \<open>onTabDiscarded\<close> deletes the
  marker and invokes \<open>saveContent\<close> with the marker and an undefined tab, which fails
  with a \<open>TypeError\<close> on \<open>tab.id\<close>.
\<close>

theorem onTabDiscarded_closed_marker:
  "onTabRemoved demoCollab (Some 5) emptyState = (Inr (), storedAt 5 closedMarker, []) \<and>
   onTabDiscarded demoCollab (Some 5) (storedAt 5 closedMarker) =
     (Inl TypeError, emptyState, [SaveContent closedMarker None])"
  by (simp add: onTabRemoved_def onTabDiscarded_def saveContent_def deletePending_def
      emptyState_def storedAt_def closedMarker_def)

subsection \<open>Replacing a tab id\<close>

text \<open>
  C10, as the code has it. When the added id has an entry, or the removed id has none,
  \<open>onTabReplaced\<close> changes nothing. In every case an entry under an id other than the
  removed one stays as it is, so no entry is overwritten. Otherwise the entry moves from
  the removed id to the added id and the pair is written to \<open>replacedTabIds\<close>, whatever
  that table holds already.
\<close>

theorem onTabReplaced_no_overwrite:
  "(pendingMessages s addedTabId \<noteq> None \<or> pendingMessages s removedTabId = None \<longrightarrow>
      onTabReplaced addedTabId removedTabId s = s) \<and>
   (\<forall>k m. k \<noteq> removedTabId \<and> pendingMessages s k = Some m \<longrightarrow>
      pendingMessages (onTabReplaced addedTabId removedTabId s) k = Some m) \<and>
   (pendingMessages s removedTabId \<noteq> None \<and> pendingMessages s addedTabId = None \<longrightarrow>
      pendingMessages (onTabReplaced addedTabId removedTabId s) =
        ((pendingMessages s)(addedTabId := pendingMessages s removedTabId))
          (removedTabId := None) \<and>
      replacedTabIds (onTabReplaced addedTabId removedTabId s) =
        (replacedTabIds s)(removedTabId \<mapsto> addedTabId))"
  by (auto simp: onTabReplaced_def)

theorem onTabReplaced_no_overwrite_witness:
  "pendingMessages (storedAt 2 demoSave) (Some 2) \<noteq> None \<and>
   onTabReplaced (Some 2) (Some 1) (storedAt 2 demoSave) = storedAt 2 demoSave \<and>
   pendingMessages (storedAt 1 demoSave) (Some 1) \<noteq> None \<and>
   pendingMessages (storedAt 1 demoSave) (Some 2) = None \<and>
   pendingMessages (onTabReplaced (Some 2) (Some 1) (storedAt 1 demoSave)) (Some 2) =
     Some demoSave \<and>
   pendingMessages (onTabReplaced (Some 2) (Some 1) (storedAt 1 demoSave)) (Some 1) = None \<and>
   replacedTabIds (onTabReplaced (Some 2) (Some 1) (storedAt 1 demoSave)) (Some 1) =
     Some (Some 2)"
proof -
  have a: "pendingMessages (storedAt 2 demoSave) (Some 2) \<noteq> None"
    and b: "pendingMessages (storedAt 1 demoSave) (Some 1) \<noteq> None"
    and c: "pendingMessages (storedAt 1 demoSave) (Some 2) = None"
    and d: "pendingMessages (storedAt 1 demoSave) (Some 1) = Some demoSave"
    by (simp_all add: storedAt_def)
  show ?thesis
    using onTabReplaced_no_overwrite [of "storedAt 2 demoSave" "Some 2" "Some 1"]
      onTabReplaced_no_overwrite [of "storedAt 1 demoSave" "Some 2" "Some 1"] a b c d
    by simp
qed

text \<open>
  Two replacements in a row, of tab 1 by tab 2 and of tab 2 by tab 3, leave the entries
  1 to 2 and 2 to 3 in \<open>replacedTabIds\<close>: a chain.
\<close>

theorem onTabReplaced_chain_counterexample:
  "replacedTabIds (onTabReplaced (Some 2) (Some 1) (storedAt 1 demoSave)) (Some 2) = None \<and>
   replacedTabIds
     (onTabReplaced (Some 3) (Some 2) (onTabReplaced (Some 2) (Some 1) (storedAt 1 demoSave)))
     (Some 1) = Some (Some 2) \<and>
   replacedTabIds
     (onTabReplaced (Some 3) (Some 2) (onTabReplaced (Some 2) (Some 1) (storedAt 1 demoSave)))
     (Some 2) = Some (Some 3)"
  by (simp add: onTabReplaced_def storedAt_def)

subsection \<open>A skipped save\<close>




subsection \<open>A deferred request and the closing of its tab\<close>

text \<open>
  C3, as the code has it. A save request that carries \<open>autoSaveRemove\<close> and not
  \<open>autoSaveUnload\<close> is stored only when its sender has a tab: it is then stored under
  the id of that tab, with the tab attached, and nothing is invoked; when that tab is
  closed next, \<open>saveContent\<close> is invoked exactly once, with the stored message, and the
  entry is deleted. When the sender has no tab and the request's \<open>tabId\<close> has no entry,
  nothing is stored and nothing is invoked.
\<close>

theorem onMessage_remove_deferred:
  assumes save: "endsWith (msg_method message) ''.save''"
    and rem: "msg_autoSaveRemove message"
    and unl: "\<not> msg_autoSaveUnload message"
  shows "(\<forall>tab. sender_tab sender = Some tab \<longrightarrow>
            onMessage c message sender s =
              (Inr SaveReply,
               s\<lparr>pendingMessages :=
                    (pendingMessages s)(tab_id tab \<mapsto> message\<lparr>msg_tab := Some tab\<rparr>)\<rparr>, []) \<and>
            saves (snd (snd (onTabRemoved c (tab_id tab)
                               (fst (snd (onMessage c message sender s)))))) =
              [SaveContent (message\<lparr>msg_tab := Some tab\<rparr>) (Some tab)] \<and>
            pendingMessages (fst (snd (onTabRemoved c (tab_id tab)
                               (fst (snd (onMessage c message sender s))))))
              (tab_id tab) = None) \<and>
         (sender_tab sender = None \<and> pendingMessages s (msg_tabId message) = None \<longrightarrow>
            onMessage c message sender s = (Inr SaveReply, s, []))"
proof (intro conjI allI impI)
  fix tab
  assume tab: "sender_tab sender = Some tab"
  let ?m = "message\<lparr>msg_tab := Some tab\<rparr>"
  let ?s1 = "s\<lparr>pendingMessages := (pendingMessages s)(tab_id tab \<mapsto> ?m)\<rparr>"
  show eq: "onMessage c message sender s = (Inr SaveReply, ?s1, [])"
    using save rem unl tab endsWith_save_not_init [OF save]
    by (simp add: onMessage_def registerOrFlush_def Let_def)
  have stored: "pendingMessages ?s1 (tab_id tab) = Some ?m \<and> msg_autoSaveRemove ?m"
    using rem by simp
  obtain r s' tr where
    run: "saveContent c ?m (msg_tab ?m) (deletePending (tab_id tab) ?s1) = (r, s', tr)"
    by (cases "saveContent c ?m (msg_tab ?m) (deletePending (tab_id tab) ?s1)") auto
  from stored run have rm: "onTabRemoved c (tab_id tab) ?s1 = (r, s', tr)"
    by (simp add: onTabRemoved_def)
  show "saves (snd (snd (onTabRemoved c (tab_id tab)
                           (fst (snd (onMessage c message sender s)))))) =
          [SaveContent ?m (Some tab)]"
    using saveContent_saves [OF run] by (simp add: eq rm)
  show "pendingMessages (fst (snd (onTabRemoved c (tab_id tab)
                           (fst (snd (onMessage c message sender s))))))
          (tab_id tab) = None"
    using saveContent_pending [OF run] by (simp add: eq rm deletePending_def)
next
  assume "sender_tab sender = None \<and> pendingMessages s (msg_tabId message) = None"
  then show "onMessage c message sender s = (Inr SaveReply, s, [])"
    using save rem unl endsWith_save_not_init [OF save]
    by (simp add: onMessage_def registerOrFlush_def)
qed

lemma removeSave_sel:
  "endsWith (msg_method removeSave) ''.save''"
  "msg_autoSaveRemove removeSave"
  "\<not> msg_autoSaveUnload removeSave"
  "\<not> msg_autoSaveDiscard removeSave"
  "msg_tabId removeSave = Some 1"
  "msg_taskId removeSave = None"
  by (simp_all add: removeSave_def demoSave_def endsWith_def)

theorem onMessage_remove_deferred_witness:
  "endsWith (msg_method removeSave) ''.save'' \<and> msg_autoSaveRemove removeSave \<and>
   \<not> msg_autoSaveUnload removeSave \<and>
   sender_tab (withTab 1) = Some (demoTab 1) \<and>
   onMessage demoCollab removeSave (withTab 1) emptyState =
     (Inr SaveReply, storedAt 1 (removeSave\<lparr>msg_tab := Some (demoTab 1)\<rparr>), []) \<and>
   saves (snd (snd (onTabRemoved demoCollab (Some 1)
                      (storedAt 1 (removeSave\<lparr>msg_tab := Some (demoTab 1)\<rparr>))))) =
     [SaveContent (removeSave\<lparr>msg_tab := Some (demoTab 1)\<rparr>) (Some (demoTab 1))] \<and>
   pendingMessages (fst (snd (onTabRemoved demoCollab (Some 1)
                      (storedAt 1 (removeSave\<lparr>msg_tab := Some (demoTab 1)\<rparr>)))))
     (Some 1) = None"
proof -
  have tab: "sender_tab (withTab 1) = Some (demoTab 1)"
    by (simp add: withTab_def)
  have tid: "tab_id (demoTab 1) = Some 1"
    by (simp add: demoTab_def)
  have st: "emptyState\<lparr>pendingMessages :=
               (pendingMessages emptyState)
                 (Some 1 \<mapsto> removeSave\<lparr>msg_tab := Some (demoTab 1)\<rparr>)\<rparr> =
            storedAt 1 (removeSave\<lparr>msg_tab := Some (demoTab 1)\<rparr>)"
    by (simp add: emptyState_def storedAt_def)
  note inst = onMessage_remove_deferred
    [OF removeSave_sel(1-3), of "withTab 1" demoCollab emptyState,
     THEN conjunct1, rule_format, OF tab]
  have eq: "onMessage demoCollab removeSave (withTab 1) emptyState =
          (Inr SaveReply, storedAt 1 (removeSave\<lparr>msg_tab := Some (demoTab 1)\<rparr>), [])"
    using inst [THEN conjunct1] by (simp add: tid st)
  have sv: "saves (snd (snd (onTabRemoved demoCollab (Some 1)
                 (storedAt 1 (removeSave\<lparr>msg_tab := Some (demoTab 1)\<rparr>))))) =
          [SaveContent (removeSave\<lparr>msg_tab := Some (demoTab 1)\<rparr>) (Some (demoTab 1))]"
    using inst [THEN conjunct2, THEN conjunct1] by (simp add: eq tid)
  have cl: "pendingMessages (fst (snd (onTabRemoved demoCollab (Some 1)
                 (storedAt 1 (removeSave\<lparr>msg_tab := Some (demoTab 1)\<rparr>)))))
          (Some 1) = None"
    using inst [THEN conjunct2, THEN conjunct2] by (simp add: eq tid)
  show ?thesis
    using removeSave_sel(1-3) tab eq sv cl by simp
qed

text \<open>
  The request of the scenario: \<open>autoSaveRemove\<close> alone, a sender without tab, no entry.
  The state after the request is the empty one, and the closing of tab 1 that follows
  writes the marker and invokes nothing.
\<close>

theorem onMessage_remove_no_tab_counterexample:
  "sender_tab noTab = None \<and>
   pendingMessages emptyState (msg_tabId removeSave) = None \<and>
   onMessage demoCollab removeSave noTab emptyState = (Inr SaveReply, emptyState, []) \<and>
   run demoCollab [Message removeSave noTab, TabRemoved (Some 1)] emptyState =
     (storedAt 1 closedMarker, [])"
proof -
  have 1: "onMessage demoCollab removeSave noTab emptyState = (Inr SaveReply, emptyState, [])"
    using removeSave_sel endsWith_save_not_init [OF removeSave_sel(1)]
    by (simp add: onMessage_def registerOrFlush_def noTab_def emptyState_def)
  have 2: "onTabRemoved demoCollab (Some 1) emptyState = (Inr (), storedAt 1 closedMarker, [])"
    by (simp add: onTabRemoved_def emptyState_def storedAt_def)
  show ?thesis
    by (simp add: 1 2) (simp add: noTab_def emptyState_def)
qed

subsection \<open>A replaced tab id and the closing of the new id\<close>

text \<open>
  What \<open>saveContent\<close> does to \<open>replacedTabIds\<close>: the entry of the tab's id is deleted in
  the branch of the \<open>finally\<close> block that closes the tab, and the table is not touched
  otherwise. In that branch one tab is closed: the redirect target of the id when it is
  truthy, and the id itself otherwise. No tab is closed in the other branches.
\<close>

lemma autoCloses_resolved:
  "getOptions c (tab_url t) = Inr (Some options0) \<Longrightarrow>
     autoCloses c m t = closesSession_spec m options0"
  by (simp add: autoCloses_def closesSession_spec_def)

lemma saveContent_replaced:
  assumes run: "saveContent c m (Some t) s = (r, s', tr)"
  shows "replacedTabIds s' =
           (if autoCloses c m t then (replacedTabIds s)(tab_id t := None) else replacedTabIds s) \<and>
         filter isTabsRemove tr =
           (if autoCloses c m t then [TabsRemove (currentIdentity s (tab_id t))] else [])"
proof (cases "getOptions c (tab_url t)")
  case (Inl e)
  with run show ?thesis
    by (auto simp: saveContent_def autoCloses_def)
next
  case (Inr oo)
  show ?thesis
  proof (cases oo)
    case None
    with Inr run show ?thesis
      by (auto simp: saveContent_def autoCloses_def)
  next
    case (Some options0)
    with Inr have o: "getOptions c (tab_url t) = Inr (Some options0)" by simp
    from saveContent_trace [OF o run] obtain pdo opts stages soc where
      tb: "tryBlock c m t (mergeOptions options0 m t) = (r, pdo, opts, stages)"
      and sc: "signalOrClose m opts (tab_id t) s = (s', soc)"
      and tr: "tr = SaveContent m (Some t) # UiOnStart (tab_id t) # stages @
                  (soc @ release pdo @ [UiOnEnd (tab_id t)])"
      by blast
    have st: "\<forall>e\<in>set stages. isStageEvent e"
      using tryBlock_stage [OF tb] by blast
    have fl: "opt_autoSaveDiscard opts = opt_autoSaveDiscard options0"
      "opt_autoClose opts = opt_autoClose options0"
      using tryBlock_flags [OF tb] by (simp_all add: mergeOptions_flags)
    note spec = signalOrClose_spec [OF sc] cleanupStepA_flags [OF fl, of m "tab_id t" s]
    have soc: "soc = cleanupStepA_spec m options0 (tab_id t) s"
      using spec by simp
    have "filter isTabsRemove tr = filter isTabsRemove soc"
      using cleanup_tail(10) [OF signalOrClose_shape [OF sc] release_shape [of pdo], of "tab_id t"]
      unfolding tr by (simp add: filter_stage_tabsRemove [OF st])
    also have "\<dots> = (if closesSession_spec m options0
                      then [TabsRemove (currentIdentity s (tab_id t))] else [])"
      unfolding soc
      by (auto simp: cleanupStepA_spec_def closesSession_spec_def split: option.splits)
    finally have "filter isTabsRemove tr =
        (if autoCloses c m t then [TabsRemove (currentIdentity s (tab_id t))] else [])"
      by (simp add: autoCloses_resolved [OF o])
    moreover have "replacedTabIds s' =
        (if autoCloses c m t then (replacedTabIds s)(tab_id t := None) else replacedTabIds s)"
      using spec by (simp add: autoCloses_resolved [OF o])
    ultimately show ?thesis by blast
  qed
qed

text \<open>
  C4, as the code has it. An entry that carries \<open>autoSaveRemove\<close> and the tab it was
  stored with is under the old id, and the new id has no entry. After the replacement of
  the old id by the new one and the closing of the new id, \<open>saveContent\<close> has been
  invoked once, with that entry and its tab, and neither id has an entry. The redirect
  from the old id is deleted exactly when the \<open>finally\<close> block takes the branch that
  closes the tab; in that branch exactly one tab is closed, the new id when it is truthy
  (defined and not 0) and the old id otherwise. In every other case the redirect stays in
  \<open>replacedTabIds\<close> and no tab is closed.
\<close>

theorem redirect_then_close:
  assumes old: "pendingMessages s old = Some m"
    and new: "pendingMessages s new = None"
    and rem: "msg_autoSaveRemove m"
    and tab: "msg_tab m = Some t"
    and tid: "tab_id t = old"
  shows "saves (snd (snd (onTabRemoved c new (onTabReplaced new old s)))) =
           [SaveContent m (Some t)] \<and>
         pendingMessages (fst (snd (onTabRemoved c new (onTabReplaced new old s)))) old = None \<and>
         pendingMessages (fst (snd (onTabRemoved c new (onTabReplaced new old s)))) new = None \<and>
         replacedTabIds (fst (snd (onTabRemoved c new (onTabReplaced new old s)))) old =
           (if autoCloses c m t then None else Some new) \<and>
         filter isTabsRemove (snd (snd (onTabRemoved c new (onTabReplaced new old s)))) =
           (if autoCloses c m t then [TabsRemove (if truthyId new then new else old)] else [])"
proof -
  let ?s1 = "onTabReplaced new old s"
  from old new have ne: "old \<noteq> new" by auto
  have p1: "pendingMessages ?s1 new = Some m" "pendingMessages ?s1 old = None"
    and r1: "replacedTabIds ?s1 old = Some new"
    using old new ne by (simp_all add: onTabReplaced_def)
  obtain r s' tr where run: "saveContent c m (Some t) (deletePending new ?s1) = (r, s', tr)"
    by (cases "saveContent c m (Some t) (deletePending new ?s1)") auto
  from p1(1) rem tab run have eq: "onTabRemoved c new ?s1 = (r, s', tr)"
    by (simp add: onTabRemoved_def)
  have rd: "replacedTabIds (deletePending new ?s1) = replacedTabIds ?s1"
    by (simp add: deletePending_def)
  have ci: "currentIdentity (deletePending new ?s1) old = (if truthyId new then new else old)"
    by (simp add: currentIdentity_def rd r1)
  have "saves tr = [SaveContent m (Some t)]"
    using saveContent_saves [OF run] .
  moreover have "pendingMessages s' old = None" "pendingMessages s' new = None"
    using saveContent_pending [OF run] p1(2) by (simp_all add: deletePending_def)
  moreover have "replacedTabIds s' old = (if autoCloses c m t then None else Some new)"
    using saveContent_replaced [OF run] r1 by (simp add: rd tid)
  moreover have "filter isTabsRemove tr =
      (if autoCloses c m t then [TabsRemove (if truthyId new then new else old)] else [])"
    using saveContent_replaced [OF run] by (simp add: tid ci)
  ultimately show ?thesis
    by (simp add: eq)
qed

lemma closingCollab_autoCloses:
  "msg_taskId m = None \<Longrightarrow> autoCloses closingCollab m t"
  by (simp add: autoCloses_def closingCollab_def demoCollab_def truthyTaskId_def)

theorem redirect_then_close_witness:
  "pendingMessages (storedAt 1 (removeSave\<lparr>msg_tab := Some (demoTab 1)\<rparr>)) (Some 1) =
     Some (removeSave\<lparr>msg_tab := Some (demoTab 1)\<rparr>) \<and>
   pendingMessages (storedAt 1 (removeSave\<lparr>msg_tab := Some (demoTab 1)\<rparr>)) (Some 2) = None \<and>
   pendingMessages (storedAt 1 (removeSave\<lparr>msg_tab := Some (demoTab 1)\<rparr>)) (Some 0) = None \<and>
   msg_autoSaveRemove (removeSave\<lparr>msg_tab := Some (demoTab 1)\<rparr>) \<and>
   msg_tab (removeSave\<lparr>msg_tab := Some (demoTab 1)\<rparr>) = Some (demoTab 1) \<and>
   tab_id (demoTab 1) = Some 1 \<and>
   saves (snd (snd (onTabRemoved closingCollab (Some 2)
      (onTabReplaced (Some 2) (Some 1)
         (storedAt 1 (removeSave\<lparr>msg_tab := Some (demoTab 1)\<rparr>)))))) =
     [SaveContent (removeSave\<lparr>msg_tab := Some (demoTab 1)\<rparr>) (Some (demoTab 1))] \<and>
   replacedTabIds (fst (snd (onTabRemoved closingCollab (Some 2)
      (onTabReplaced (Some 2) (Some 1)
         (storedAt 1 (removeSave\<lparr>msg_tab := Some (demoTab 1)\<rparr>)))))) (Some 1) = None \<and>
   filter isTabsRemove (snd (snd (onTabRemoved closingCollab (Some 2)
      (onTabReplaced (Some 2) (Some 1)
         (storedAt 1 (removeSave\<lparr>msg_tab := Some (demoTab 1)\<rparr>)))))) =
     [TabsRemove (Some 2)] \<and>
   filter isTabsRemove (snd (snd (onTabRemoved closingCollab (Some 0)
      (onTabReplaced (Some 0) (Some 1)
         (storedAt 1 (removeSave\<lparr>msg_tab := Some (demoTab 1)\<rparr>)))))) =
     [TabsRemove (Some 1)]"
proof -
  let ?m = "removeSave\<lparr>msg_tab := Some (demoTab 1)\<rparr>"
  have 1: "pendingMessages (storedAt 1 ?m) (Some 1) = Some ?m"
    and 2: "pendingMessages (storedAt 1 ?m) (Some 2) = None"
    and z: "pendingMessages (storedAt 1 ?m) (Some 0) = None"
    by (simp_all add: storedAt_def)
  have 3: "msg_autoSaveRemove ?m" and 4: "msg_tab ?m = Some (demoTab 1)"
    by (simp_all add: removeSave_sel)
  have 5: "tab_id (demoTab 1) = Some 1"
    by (simp add: demoTab_def)
  have ac: "autoCloses closingCollab ?m (demoTab 1)"
    by (rule closingCollab_autoCloses) (simp add: removeSave_sel)
  from redirect_then_close [OF 1 2 3 4 5, of closingCollab]
    redirect_then_close [OF 1 z 3 4 5, of closingCollab]
  show ?thesis
    using 1 2 z 3 4 5 ac by (simp add: truthyId_def)
qed

text \<open>
  With options that do not ask to close the tab, the redirect from tab 1 to tab 2 is
  still in \<open>replacedTabIds\<close> after the replacement and the closing of tab 2, although the
  entry has been flushed and neither id has an entry.
\<close>

theorem redirect_kept_counterexample:
  "run demoCollab [TabReplaced (Some 2) (Some 1), TabRemoved (Some 2)]
     (storedAt 1 (removeSave\<lparr>msg_tab := Some (demoTab 1)\<rparr>)) =
     (\<lparr>pendingMessages = Map.empty, replacedTabIds = [Some 1 \<mapsto> Some 2]\<rparr>,
      [SaveContent (removeSave\<lparr>msg_tab := Some (demoTab 1)\<rparr>) (Some (demoTab 1)),
       UiOnStart (Some 1), GetPageData, TestSkipSave ''page.zip'', CompressionProcess,
       CreateObjectURL ''blob:1'', DownloadPage, RevokeObjectURL ''blob:1'',
       UiOnEnd (Some 1)])"
proof -
  let ?m = "removeSave\<lparr>msg_tab := Some (demoTab 1)\<rparr>"
  let ?s1 = "\<lparr>pendingMessages = [Some 2 \<mapsto> ?m], replacedTabIds = [Some 1 \<mapsto> Some 2]\<rparr>"
  have a: "onTabReplaced (Some 2) (Some 1) (storedAt 1 ?m) = ?s1"
    by (simp add: onTabReplaced_def storedAt_def fun_upd_twist)
  have t: "msg_taskId ?m = None" "msg_autoSaveRemove ?m" "msg_tab ?m = Some (demoTab 1)"
    by (simp_all add: removeSave_sel)
  have b: "onTabRemoved demoCollab (Some 2) ?s1 =
      (Inr (), \<lparr>pendingMessages = Map.empty, replacedTabIds = [Some 1 \<mapsto> Some 2]\<rparr>,
       [SaveContent ?m (Some (demoTab 1)),
        UiOnStart (Some 1), GetPageData, TestSkipSave ''page.zip'', CompressionProcess,
        CreateObjectURL ''blob:1'', DownloadPage, RevokeObjectURL ''blob:1'',
        UiOnEnd (Some 1)])"
    by (simp add: onTabRemoved_def t deletePending_def saveContent_demo [OF t(1)])
      (simp add: demoTab_def)
  show ?thesis
    by (simp add: a b)
qed

subsection \<open>Flushing an entry at most once\<close>

text \<open>
  The handlers of the lifecycle events delete the entry they flush: after
  \<open>onTabRemoved\<close> or \<open>onTabDiscarded\<close> has invoked \<open>saveContent\<close>, the tab id has no
  entry. After \<open>onMessage\<close> has invoked \<open>saveContent\<close>, the id \<open>message.tabId\<close> has no
  entry.
\<close>

lemma saves_Nil [simp]: "saves [] = []"
  by (simp add: saves_def)

lemma saves_append [simp]: "saves (xs @ ys) = saves xs @ saves ys"
  by (simp add: saves_def)

lemma onTabRemoved_flush_clears:
  assumes "saves (snd (snd (onTabRemoved c tabId s))) \<noteq> []"
  shows "pendingMessages (fst (snd (onTabRemoved c tabId s))) tabId = None"
proof (cases "pendingMessages s tabId")
  case None
  with assms show ?thesis by (simp add: onTabRemoved_def)
next
  case (Some m)
  with assms have rem: "msg_autoSaveRemove m"
    by (auto simp: onTabRemoved_def split: if_splits)
  obtain r s' tr where run: "saveContent c m (msg_tab m) (deletePending tabId s) = (r, s', tr)"
    by (cases "saveContent c m (msg_tab m) (deletePending tabId s)") auto
  from Some rem run have eq: "onTabRemoved c tabId s = (r, s', tr)"
    by (simp add: onTabRemoved_def)
  show ?thesis
    using saveContent_pending [OF run] by (simp add: eq deletePending_def)
qed

lemma onTabDiscarded_flush_clears:
  assumes "saves (snd (snd (onTabDiscarded c tabId s))) \<noteq> []"
  shows "pendingMessages (fst (snd (onTabDiscarded c tabId s))) tabId = None"
proof (cases "pendingMessages s tabId")
  case None
  with assms show ?thesis by (simp add: onTabDiscarded_def)
next
  case (Some m)
  then show ?thesis
    using onTabDiscarded_entry [OF Some, of c] by simp
qed

lemma saveContent_deleted:
  "pendingMessages (fst (snd (saveContent c m t (deletePending k s)))) k = None"
proof -
  obtain r s' tr where run: "saveContent c m t (deletePending k s) = (r, s', tr)"
    by (cases "saveContent c m t (deletePending k s)") auto
  have "pendingMessages s' = pendingMessages (deletePending k s)"
    by (rule saveContent_pending [OF run])
  then show ?thesis
    unfolding run by (simp add: deletePending_def)
qed

lemma acknowledge_state: "fst (snd (acknowledge tr1 res)) = fst (snd res)"
  by (auto simp: acknowledge_def split: prod.splits sum.splits)

lemma acknowledge_ok: "acknowledge tr1 (Inr u, s, tr) = (Inr SaveReply, s, tr1 @ tr)"
  by (simp add: acknowledge_def)

lemma onMessage_flush_clears:
  assumes "saves (snd (snd (onMessage c message sender s))) \<noteq> []"
  shows "pendingMessages (fst (snd (onMessage c message sender s))) (msg_tabId message) = None"
proof (cases "endsWith (msg_method message) ''.init''")
  case True
  with assms show ?thesis
    by (auto simp: onMessage_def isEnabled_def split: option.splits sum.splits)
next
  case init: False
  show ?thesis
  proof (cases "endsWith (msg_method message) ''.save''")
    case False
    with init assms show ?thesis by (simp add: onMessage_def)
  next
    case save: True
    show ?thesis
    proof (cases "msg_autoSaveDiscard message \<or> msg_autoSaveRemove message")
      case False
      then have "onMessage c message sender s =
          acknowledge []
            (saveContent c message (sender_tab sender) (deletePending (msg_tabId message) s))"
        using init save by (simp add: onMessage_def)
      then show ?thesis
        by (simp only: acknowledge_state saveContent_deleted)
    next
      case flags: True
      obtain m1 r1 s1 tr1 where reg: "registerOrFlush c message sender s = (m1, r1, s1, tr1)"
        by (cases "registerOrFlush c message sender s") auto
      have m1: "msg_tabId m1 = msg_tabId message \<and> msg_autoSaveUnload m1 = msg_autoSaveUnload message"
        using reg by (auto simp: registerOrFlush_def Let_def split: option.splits if_splits prod.splits)
      have flushed: "pendingMessages s1 (msg_tabId message) = None" if "saves tr1 \<noteq> []"
      proof (cases "sender_tab sender")
        case (Some tab)
        with reg that show ?thesis by (auto simp: registerOrFlush_def Let_def)
      next
        case None
        show ?thesis
        proof (cases "(case pendingMessages s (msg_tabId message) of
                 None \<Rightarrow> False | Some p \<Rightarrow> msg_removed p) \<and> msg_autoSaveRemove message")
          case False
          with None reg that show ?thesis by (auto simp: registerOrFlush_def)
        next
          case True
          with None reg have "s1 = fst (snd (saveContent c message
                     (Some \<lparr>tab_id = msg_tabId message, tab_index = msg_tabIndex message,
                            tab_url = sender_url sender, tab_pinned = False,
                            tab_incognito = None\<rparr>)
                     (deletePending (msg_tabId message) s)))"
            by (auto simp: registerOrFlush_def split: prod.splits)
          then show ?thesis by (simp only: saveContent_deleted)
        qed
      qed
      show ?thesis
      proof (cases r1)
        case (Inl e)
        with reg init save flags have eq: "onMessage c message sender s = (Inl e, s1, tr1)"
          by (simp add: onMessage_def)
        with assms flushed show ?thesis by simp
      next
        case (Inr u)
        show ?thesis
        proof (cases "msg_autoSaveUnload message")
          case False
          with Inr reg init save flags m1
          have eq: "onMessage c message sender s = (Inr SaveReply, s1, tr1)"
            by (simp add: onMessage_def)
          with assms flushed show ?thesis by simp
        next
          case True
          with Inr reg init save flags m1
          have "onMessage c message sender s =
            acknowledge tr1
              (saveContent c m1 (sender_tab sender) (deletePending (msg_tabId message) s1))"
            by (simp add: onMessage_def)
          then show ?thesis
            by (simp only: acknowledge_state saveContent_deleted)
        qed
      qed
    qed
  qed
qed

lemma unloadSave_sel:
  "endsWith (msg_method unloadSave) ''.save''"
  "msg_autoSaveRemove unloadSave"
  "msg_autoSaveUnload unloadSave"
  "msg_tabId unloadSave = Some 1"
  "msg_taskId unloadSave = None"
  by (simp_all add: unloadSave_def demoSave_def endsWith_def)

text \<open>
  C6. The entry of \<open>onMessage\<close> is written under the id of the sender's tab, and the
  entry deleted before the flush of an \<open>autoSaveUnload\<close> request is the one under
  \<open>message.tabId\<close>. A request with \<open>autoSaveRemove\<close> and \<open>autoSaveUnload\<close> whose
  \<open>tabId\<close> is 1, sent from tab 2, is flushed at once and stays stored under 2; the
  closing of tab 2 flushes it a second time.
\<close>

theorem flushed_twice:
  "onMessage demoCollab unloadSave (withTab 2) emptyState =
     (Inr SaveReply, storedAt 2 (unloadSave\<lparr>msg_tab := Some (demoTab 2)\<rparr>),
      [SaveContent (unloadSave\<lparr>msg_tab := Some (demoTab 2)\<rparr>) (Some (demoTab 2)),
       UiOnStart (Some 2), GetPageData, TestSkipSave ''page.zip'', CompressionProcess,
       CreateObjectURL ''blob:1'', DownloadPage, RevokeObjectURL ''blob:1'',
       UiOnEnd (Some 2)]) \<and>
   onTabRemoved demoCollab (Some 2) (storedAt 2 (unloadSave\<lparr>msg_tab := Some (demoTab 2)\<rparr>)) =
     (Inr (), emptyState,
      [SaveContent (unloadSave\<lparr>msg_tab := Some (demoTab 2)\<rparr>) (Some (demoTab 2)),
       UiOnStart (Some 2), GetPageData, TestSkipSave ''page.zip'', CompressionProcess,
       CreateObjectURL ''blob:1'', DownloadPage, RevokeObjectURL ''blob:1'',
       UiOnEnd (Some 2)]) \<and>
   saves (snd (run demoCollab [Message unloadSave (withTab 2), TabRemoved (Some 2)] emptyState)) =
     [SaveContent (unloadSave\<lparr>msg_tab := Some (demoTab 2)\<rparr>) (Some (demoTab 2)),
      SaveContent (unloadSave\<lparr>msg_tab := Some (demoTab 2)\<rparr>) (Some (demoTab 2))]"
proof -
  let ?m = "unloadSave\<lparr>msg_tab := Some (demoTab 2)\<rparr>"
  have t: "msg_taskId ?m = None" "msg_autoSaveRemove ?m" "msg_tab ?m = Some (demoTab 2)"
    "msg_autoSaveUnload ?m" "msg_tabId ?m = Some 1"
    by (simp_all add: unloadSave_sel)
  have tid: "tab_id (demoTab 2) = Some 2"
    by (simp add: demoTab_def)
  have wt: "sender_tab (withTab 2) = Some (demoTab 2)"
    by (simp add: withTab_def)
  have reg: "registerOrFlush demoCollab unloadSave (withTab 2) emptyState =
      (?m, Inr (), storedAt 2 ?m, [])"
    by (simp add: registerOrFlush_def wt Let_def tid emptyState_def storedAt_def)
  have del: "deletePending (Some 1) (storedAt 2 ?m) = storedAt 2 ?m"
    by (simp add: deletePending_def storedAt_def)
  have lk: "pendingMessages (storedAt 2 ?m) (Some 2) = Some ?m"
    by (simp add: storedAt_def)
  have del2: "deletePending (Some 2) (storedAt 2 ?m) = emptyState"
    by (simp add: deletePending_def storedAt_def emptyState_def)
  have 1: "onMessage demoCollab unloadSave (withTab 2) emptyState =
     (Inr SaveReply, storedAt 2 ?m,
      [SaveContent ?m (Some (demoTab 2)),
       UiOnStart (Some 2), GetPageData, TestSkipSave ''page.zip'', CompressionProcess,
       CreateObjectURL ''blob:1'', DownloadPage, RevokeObjectURL ''blob:1'',
       UiOnEnd (Some 2)])"
    using unloadSave_sel endsWith_save_not_init [OF unloadSave_sel(1)]
    by (simp add: onMessage_def reg t del wt saveContent_demo [OF t(1)] tid
        acknowledge_ok)
  have 2: "onTabRemoved demoCollab (Some 2) (storedAt 2 ?m) =
     (Inr (), emptyState,
      [SaveContent ?m (Some (demoTab 2)),
       UiOnStart (Some 2), GetPageData, TestSkipSave ''page.zip'', CompressionProcess,
       CreateObjectURL ''blob:1'', DownloadPage, RevokeObjectURL ''blob:1'',
       UiOnEnd (Some 2)])"
    by (simp add: onTabRemoved_def lk t del2 saveContent_demo [OF t(1)] tid)
  show ?thesis
    by (simp add: 1 2 saves_def)
qed

end
